theory Spec2Isabelle
  imports Complex_Main "HOL-Library.Char_ord" "HOL-Library.List_Lexorder"
begin

section \<open>Ephemeral import workers: the Fly provisioning client and the job orchestrator\<close>

text \<open>
  The development embeds two services of the repository.
  \<^item> \<open>FlyWorkerService\<close> (fly-worker.service): volume sizing, \<open>createWorker\<close> with its
    rollback of the volume, \<open>cleanupWorker\<close>.
  \<^item> \<open>GooglePhotosImportService\<close> (google-photos-import.service): \<open>createImportJobWithFlyWorker\<close>,
    \<open>addEvent\<close>, \<open>stableStringify\<close>, \<open>handleWorkerWebhook\<close>, \<open>cancelWorkerJob\<close>,
    \<open>cancelJob\<close>, \<open>cleanupJob\<close> and \<open>cleanupWorkerJob\<close>.

  Conventions of the embedding.
  \<^item> A JavaScript string is a \<open>string\<close>, read as the bytes of its UTF-8 encoding, so
    \<open>Buffer.from(s)\<close> is \<open>s\<close> itself and \<open>length\<close> is the byte length of the buffer.
  \<^item> A JavaScript number that counts something (bytes, files, photos) is an \<open>int\<close>;
    non-integral doubles are outside the model.
  \<^item> An optional field is an \<open>option\<close>; \<open>None\<close> is \<open>undefined\<close>.
  \<^item> A thrown exception is the \<open>Inl\<close> of a sum; an \<open>async\<close> method that is awaited is the
    function it computes.
  \<^item> Calls of the logger have no effect on any state below and are left out.
\<close>

subsection \<open>Volume sizing (\<open>FlyWorkerService.calculateVolumeSizeGb\<close>)\<close>

text \<open>
  \<^verbatim>\<open>
  calculateVolumeSizeGb(fileSizes: number[]): number {
    const totalBytes = fileSizes.reduce((sum, size) => sum + size, 0);
    const sizeGb = Math.ceil(totalBytes / (1024 * 1024 * 1024)) + 5;
    return Math.max(10, Math.min(100, sizeGb));
  }
  \<close>
\<close>

definition calculateVolumeSizeGb :: "int list \<Rightarrow> int" where
  "calculateVolumeSizeGb fileSizes =
     (let totalBytes = foldl (\<lambda>sum size. sum + size) 0 fileSizes;
          sizeGb = \<lceil>real_of_int totalBytes / (1024 * 1024 * 1024)\<rceil> + 5
      in max 10 (min 100 sizeGb))"

text \<open>The specification's words: \<open>clamp(x, lo, hi)\<close>, one gibibyte, and the three constants.\<close>

definition clamp :: "int \<Rightarrow> int \<Rightarrow> int \<Rightarrow> int" where
  "clamp x lo hi = (if x < lo then lo else if hi < x then hi else x)"

definition GiB :: int where
  "GiB = 2 ^ 30"

definition fixedBufferGB :: int where
  "fixedBufferGB = 5"

definition minGB :: int where
  "minGB = 10"

definition maxGB :: int where
  "maxGB = 100"

subsection \<open>The data model (google-photos-import.dto)\<close>

datatype ActivityEventType = Info | Success | Error | Download | Upload | Album

record ActivityEventDto =
  timestamp :: string
  type :: ActivityEventType
  message :: string

datatype Phase = PhaseDownloading | PhaseProcessing | PhaseComplete | PhaseFailed

record GooglePhotosImportProgressDto =
  phase :: Phase
  current :: int
  total :: int
  currentFile :: "string option"
  albumsFound :: int
  photosImported :: int
  bytesDownloaded :: "int option"
  totalBytes :: "int option"
  errors :: "string list"
  events :: "ActivityEventDto list"

datatype FlyWorkerJobStatus =
  Pending | Creating | Downloading | Processing | Complete | Failed | Cleanup

record FlyWorkerJobMetadata =
  jobId :: string
  userId :: string
  machineId :: string
  volumeId :: string
  status :: FlyWorkerJobStatus
  progress :: GooglePhotosImportProgressDto
  webhookSecret :: string
  tempApiKeyId :: string
  createdAt :: string
  updatedAt :: string

subsection \<open>The activity timeline (\<open>addEvent\<close>)\<close>

text \<open>
  \<^verbatim>\<open>
  private addEvent(job, type, message): void {
    job.progress.events.push({ timestamp: new Date().toISOString(), type, message });
    if (job.progress.events.length > 100) {
      job.progress.events = job.progress.events.slice(-100);
    }
  }
  \<close>
  \<open>slice(-100)\<close> of an array of length \<open>n > 100\<close> starts at index \<open>n - 100\<close>. The
  timestamp read from the clock is the argument \<open>now\<close>.
\<close>

definition slice_last :: "nat \<Rightarrow> 'a list \<Rightarrow> 'a list" where
  "slice_last n xs = drop (length xs - n) xs"

definition addEvent ::
  "FlyWorkerJobMetadata \<Rightarrow> string \<Rightarrow> ActivityEventType \<Rightarrow> string \<Rightarrow> FlyWorkerJobMetadata" where
  "addEvent job now ty msg =
     (let pushed = events (progress job) @ [\<lparr>timestamp = now, type = ty, message = msg\<rparr>]
      in job\<lparr>progress := (progress job)\<lparr>events :=
           (if length pushed > 100 then slice_last 100 pushed else pushed)\<rparr>\<rparr>)"

text \<open>A sequence of insertions, each with its own clock reading, kind and message.\<close>

definition mkEvent :: "string \<times> ActivityEventType \<times> string \<Rightarrow> ActivityEventDto" where
  "mkEvent e = \<lparr>timestamp = fst e, type = fst (snd e), message = snd (snd e)\<rparr>"

definition addEvents ::
  "FlyWorkerJobMetadata \<Rightarrow> (string \<times> ActivityEventType \<times> string) list \<Rightarrow> FlyWorkerJobMetadata" where
  "addEvents job ins = foldl (\<lambda>j e. addEvent j (fst e) (fst (snd e)) (snd (snd e))) job ins"

subsection \<open>Canonical JSON (\<open>stableStringify\<close>)\<close>

text \<open>
  \<^verbatim>\<open>
  private stableStringify(obj: unknown): string {
    return JSON.stringify(obj, (key, value) => {
      if (value && typeof value === 'object' && !Array.isArray(value)) {
        return Object.keys(value).sort().reduce((sorted, k) => {
          sorted[k] = value[k];
          return sorted;
        }, {});
      }
      return value;
    });
  }
  \<close>
  A JSON value is \<open>null\<close>, a boolean, a number, a string, an array or an object. An
  object is the list of its own properties in the order in which the language enumerates
  them (\<open>Object.keys\<close>, \<open>JSON.stringify\<close>). Numbers are integers and are printed in
  decimal, which is what \<open>JSON.stringify\<close> prints for them below \<open>10^21\<close>.
\<close>

datatype json =
  JNull | JBool bool | JNum int | JStr string | JArr "json list" | JObj "(string \<times> json) list"

definition digit_char :: "nat \<Rightarrow> char" where
  "digit_char n = ''0123456789abcdef'' ! n"

fun show_nat :: "nat \<Rightarrow> string" where
  "show_nat n = (if n < 10 then [digit_char n] else show_nat (n div 10) @ [digit_char (n mod 10)])"

definition show_int :: "int \<Rightarrow> string" where
  "show_int i = (if i < 0 then CHR ''-'' # show_nat (nat (- i)) else show_nat (nat i))"

definition hex_char :: "nat \<Rightarrow> char" where
  "hex_char n = digit_char (n mod 16)"

text \<open>
  \<open>QuoteJSONString\<close> of the language standard: the quote and the backslash are escaped,
  the control characters are written \<open>\b \t \n \f \r\<close> or \<open>\u00xx\<close>, every other
  byte stands for itself.
\<close>

definition quote_char :: "char \<Rightarrow> string" where
  "quote_char c =
     (let n = (of_char c :: nat) in
      if n = 8 then [CHR 0x5C, CHR ''b'']
      else if n = 9 then [CHR 0x5C, CHR ''t'']
      else if n = 10 then [CHR 0x5C, CHR ''n'']
      else if n = 12 then [CHR 0x5C, CHR ''f'']
      else if n = 13 then [CHR 0x5C, CHR ''r'']
      else if n = 34 then [CHR 0x5C, CHR 0x22]
      else if n = 92 then [CHR 0x5C, CHR 0x5C]
      else if n < 32 then
        [CHR 0x5C, CHR ''u'', CHR ''0'', CHR ''0'', hex_char (n div 16), hex_char (n mod 16)]
      else [c])"

definition QuoteJSONString :: "string \<Rightarrow> string" where
  "QuoteJSONString s = CHR 0x22 # concat (map quote_char s) @ [CHR 0x22]"

fun join :: "string \<Rightarrow> string list \<Rightarrow> string" where
  "join sep [] = []"
| "join sep [x] = x"
| "join sep (x # y # ys) = x @ sep @ join sep (y # ys)"

text \<open>
  The own properties of an ordinary object are enumerated with the array indices first,
  in ascending numeric order, and then the other string keys in the order of their
  creation. An array index is a canonical numeric string (no sign, no leading zero) whose
  value is below \<open>2^32 - 1\<close>. \<open>obj_set\<close> is the assignment \<open>sorted[k] = v\<close> on
  an object made by \<open>{}\<close>: it replaces the value of an own property, or creates the
  property; for the key \<open>__proto__\<close> it runs the setter inherited from
  \<open>Object.prototype\<close> and creates no own property.
\<close>

definition is_digit :: "char \<Rightarrow> bool" where
  "is_digit c = (CHR ''0'' \<le> c \<and> c \<le> CHR ''9'')"

definition parse_nat :: "string \<Rightarrow> int" where
  "parse_nat s = foldl (\<lambda>a c. 10 * a + (of_char c - 48)) 0 s"

definition array_index :: "string \<Rightarrow> int option" where
  "array_index k =
     (if k \<noteq> [] \<and> list_all is_digit k \<and> (k = ''0'' \<or> hd k \<noteq> CHR ''0'')
         \<and> parse_nat k < 2 ^ 32 - 1
      then Some (parse_nat k) else None)"

fun insert_index :: "int \<Rightarrow> string \<Rightarrow> 'a \<Rightarrow> (string \<times> 'a) list \<Rightarrow> (string \<times> 'a) list" where
  "insert_index i k v [] = [(k, v)]"
| "insert_index i k v (p # rest) =
     (case array_index (fst p) of
        Some i' \<Rightarrow> if i < i' then (k, v) # p # rest else p # insert_index i k v rest
      | None \<Rightarrow> (k, v) # p # rest)"

definition obj_set :: "(string \<times> 'a) list \<Rightarrow> string \<Rightarrow> 'a \<Rightarrow> (string \<times> 'a) list" where
  "obj_set obj k v =
     (if k = ''__proto__'' then obj
      else if k \<in> set (map fst obj) then map (\<lambda>p. if fst p = k then (k, v) else p) obj
      else case array_index k of Some i \<Rightarrow> insert_index i k v obj | None \<Rightarrow> obj @ [(k, v)])"

text \<open>
  The replacer's answer for an object: \<open>Object.keys(value).sort()\<close> orders the keys as
  strings, here byte by byte, which is the order of their code units for keys written in
  ASCII, and \<open>reduce\<close> assigns them one by one to a fresh object.
\<close>

definition sortedCopy :: "(string \<times> 'a) list \<Rightarrow> (string \<times> 'a) list" where
  "sortedCopy value =
     foldl (\<lambda>sorted k. case map_of value k of Some v \<Rightarrow> obj_set sorted k v | None \<Rightarrow> sorted)
       [] (sort (map fst value))"

text \<open>
  \<open>JSON.stringify\<close> with this replacer and no indentation: the replacer is applied to
  every value before it is written, and the members of an object are written in the
  enumeration order of what the replacer returned.
\<close>

function stableStringify :: "json \<Rightarrow> string" where
  "stableStringify JNull = ''null''"
| "stableStringify (JBool b) = (if b then ''true'' else ''false'')"
| "stableStringify (JNum n) = show_int n"
| "stableStringify (JStr s) = QuoteJSONString s"
| "stableStringify (JArr xs) = ''['' @ join '','' (map stableStringify xs) @ '']''"
| "stableStringify (JObj value) =
     ''{'' @ join '',''
        (map (\<lambda>p. QuoteJSONString (fst p) @ '':'' @ stableStringify (snd p)) (sortedCopy value))
      @ ''}''"
  by pat_completeness auto
termination
proof (relation "measure size")
  show "wf (measure size)" by simp
next
  fix xs :: "json list" and x
  assume "x \<in> set xs"
  then show "(x, JArr xs) \<in> measure size"
    by (simp add: size_list_estimation' less_Suc_eq_le)
next
  fix "value" :: "(string \<times> json) list" and p
  assume member: "p \<in> set (sortedCopy value)"
  have ins: "set (insert_index i k v obj) = insert (k, v) (set obj)"
    for i k and v :: json and obj
    by (induction obj) (auto split: option.splits)
  have upd: "set (obj_set obj k v) \<subseteq> insert (k, v) (set obj)" for obj k and v :: json
    by (auto simp: obj_set_def ins split: option.splits if_splits)
  have copy: "set acc \<subseteq> set value \<Longrightarrow>
      set (foldl (\<lambda>sorted k. case map_of value k of Some v \<Rightarrow> obj_set sorted k v
                                | None \<Rightarrow> sorted) acc ks) \<subseteq> set value" for acc ks
  proof (induction ks arbitrary: acc)
    case Nil
    then show ?case by simp
  next
    case (Cons k ks)
    show ?case
    proof (cases "map_of value k")
      case None
      then show ?thesis using Cons by simp
    next
      case (Some v)
      then have "(k, v) \<in> set value" by (rule map_of_SomeD)
      then have "set (obj_set acc k v) \<subseteq> set value"
        using upd [of acc k v] Cons.prems by auto
      then show ?thesis using Cons.IH Some by simp
    qed
  qed
  have "set (sortedCopy value) \<subseteq> set value"
    unfolding sortedCopy_def by (rule copy) simp
  with member have "p \<in> set value" by blast
  then have "size_prod (\<lambda>_. 0) size p \<le> size_list (size_prod (\<lambda>_. 0) size) value"
    by (simp add: size_list_estimation')
  then show "(snd p, JObj value) \<in> measure size"
    by (cases p) simp
qed

text \<open>
  Two JSON values that are equal up to the order of the keys of their objects, at any
  depth: the same atoms, arrays with related elements in the same order, and objects with
  the same keys (each once) and related values under each key.
\<close>

inductive sameUpToKeyOrder :: "json \<Rightarrow> json \<Rightarrow> bool" where
  same_null: "sameUpToKeyOrder JNull JNull"
| same_bool: "sameUpToKeyOrder (JBool b) (JBool b)"
| same_num: "sameUpToKeyOrder (JNum n) (JNum n)"
| same_str: "sameUpToKeyOrder (JStr s) (JStr s)"
| same_arr: "list_all2 sameUpToKeyOrder xs ys \<Longrightarrow> sameUpToKeyOrder (JArr xs) (JArr ys)"
| same_obj: "distinct (map fst kvs) \<Longrightarrow> distinct (map fst kvs') \<Longrightarrow>
             set (map fst kvs) = set (map fst kvs') \<Longrightarrow>
             (\<forall>k v v'. map_of kvs k = Some v \<longrightarrow> map_of kvs' k = Some v' \<longrightarrow> sameUpToKeyOrder v v') \<Longrightarrow>
             sameUpToKeyOrder (JObj kvs) (JObj kvs')"

text \<open>The keys of the members of a serialized object, in the order in which they are written.\<close>

definition serializedKeys :: "(string \<times> 'a) list \<Rightarrow> string list" where
  "serializedKeys value = map fst (sortedCopy value)"

subsection \<open>The outside world\<close>

text \<open>
  The services talk to the Fly Machines API (through \<open>request\<close>), to the API-key
  repository, to the crypto repository and to the file system. Each such call is recorded
  in a trace, and the outcome of the \<open>n\<close>-th call of a run is read from the
  environment: \<open>Inl\<close> an exception, \<open>Inr\<close> the returned identifier or text (the empty
  string where nothing is returned). The application name, the image and the volume name
  of a request are not recorded. The metadata repository is a map and its \<open>get\<close> and
  \<open>set\<close> do not fail. The two-second \<open>setTimeout\<close> of \<open>cleanupWorker\<close> is real
  time and has no counterpart here.
\<close>

datatype JsError = JsError (errName: string) (errMessage: string)

text \<open>\<open>Error.prototype.toString\<close>, which a template literal applies to \<open>${error}\<close>.\<close>

definition errorToString :: "JsError \<Rightarrow> string" where
  "errorToString e =
     (if errName e = [] then errMessage e
      else if errMessage e = [] then errName e
      else errName e @ '': '' @ errMessage e)"

datatype Permission =
  UserRead | AssetUpload | AssetRead | AlbumCreate | AlbumRead | AlbumUpdate | AlbumAssetCreate

record MachineConfig =
  mc_name :: string
  mc_region :: string
  mc_env :: "(string \<times> string) list"
  mc_volumeId :: string
  mc_volumePath :: string
  mc_memoryMb :: "int option"
  mc_cpus :: "int option"

datatype Call =
    RandomUUID
  | RandomBytesAsText nat
  | ApiKeyCreate string string string "Permission list"
  | ApiKeyDelete string string
  | FlyCreateVolume int string
  | FlyDeleteVolume string
  | FlyCreateMachine MachineConfig
  | FlyStopMachine string
  | FlyDestroyMachine string
  | RmDir string

datatype ImportJobStatus = JobPending | JobDownloading | JobProcessing | JobComplete | JobFailed

record ImportJob =
  ij_id :: string
  ij_userId :: string
  ij_status :: ImportJobStatus
  ij_progress :: GooglePhotosImportProgressDto
  ij_createdAt :: string
  ij_driveFileIds :: "string list"
  ij_localFiles :: "string list"
  ij_tempApiKeyId :: "string option"
  ij_abortController :: "bool option"

record DriveTokens =
  accessToken :: string
  refreshToken :: "string option"
  expiresAt :: "string option"

record SystemConfig =
  oauth_enabled :: bool
  oauth_clientId :: string
  oauth_clientSecret :: string
  server_externalDomain :: string

record Env =
  respond :: "nat \<Rightarrow> JsError + string"
  clock :: "nat \<Rightarrow> string"
  hmacSha256Hex :: "string \<Rightarrow> string \<Rightarrow> string"
  hashSha256 :: "string \<Rightarrow> string"
  driveTokens :: "string \<Rightarrow> DriveTokens option"
  config :: SystemConfig
  IMMICH_URL :: "string option"

text \<open>
  The state: the metadata repository (\<open>systemMetadata\<close>), the in-memory job map
  (\<open>jobs\<close>), the trace of external calls, the number of clock readings made so far,
  and the job ids whose cleanup a webhook has started in the background without awaiting
  it.
\<close>

record World =
  systemMetadata :: "string \<rightharpoonup> FlyWorkerJobMetadata"
  jobs :: "string \<rightharpoonup> ImportJob"
  calls :: "Call list"
  ticks :: nat
  background :: "string list"

type_synonym 'a outcome = "(JsError + 'a) \<times> World"

definition perform :: "Env \<Rightarrow> Call \<Rightarrow> World \<Rightarrow> string outcome" where
  "perform E c w = (respond E (length (calls w)), w\<lparr>calls := calls w @ [c]\<rparr>)"

text \<open>\<open>await\<close> of a call that may throw: the rest runs on the returned value, an exception propagates.\<close>

definition andThen :: "'a outcome \<Rightarrow> ('a \<Rightarrow> World \<Rightarrow> 'b outcome) \<Rightarrow> 'b outcome" where
  "andThen r f = (case fst r of Inl e \<Rightarrow> (Inl e, snd r) | Inr x \<Rightarrow> f x (snd r))"

text \<open>\<open>try { ... } catch { }\<close> around a call whose value is not used.\<close>

definition swallow :: "'a outcome \<Rightarrow> World" where
  "swallow r = snd r"

text \<open>\<open>new Date().toISOString()\<close>.\<close>

definition newDate :: "Env \<Rightarrow> World \<Rightarrow> string \<times> World" where
  "newDate E w = (clock E (ticks w), w\<lparr>ticks := Suc (ticks w)\<rparr>)"

definition FLY_WORKER_JOB_PREFIX :: string where
  "FLY_WORKER_JOB_PREFIX = ''fly-worker-job:''"

definition saveWorkerJob :: "FlyWorkerJobMetadata \<Rightarrow> World \<Rightarrow> World" where
  "saveWorkerJob job w =
     w\<lparr>systemMetadata := (systemMetadata w)(FLY_WORKER_JOB_PREFIX @ jobId job \<mapsto> job)\<rparr>"

definition getWorkerJob :: "string \<Rightarrow> World \<Rightarrow> FlyWorkerJobMetadata option" where
  "getWorkerJob jid w = systemMetadata w (FLY_WORKER_JOB_PREFIX @ jid)"

text \<open>\<open>addEvent\<close> on a job held locally, reading the clock of the state.\<close>

definition addEventNow ::
  "Env \<Rightarrow> ActivityEventType \<Rightarrow> string \<Rightarrow> FlyWorkerJobMetadata \<times> World \<Rightarrow> FlyWorkerJobMetadata \<times> World" where
  "addEventNow E ty msg st =
     (let (now, w') = newDate E (snd st) in (addEvent (fst st) now ty msg, w'))"

subsection \<open>The provisioning client (\<open>FlyWorkerService\<close>)\<close>

definition createVolume :: "Env \<Rightarrow> int \<Rightarrow> string \<Rightarrow> World \<Rightarrow> string outcome" where
  "createVolume E sizeGb region w = perform E (FlyCreateVolume sizeGb region) w"

definition deleteVolume :: "Env \<Rightarrow> string \<Rightarrow> World \<Rightarrow> unit outcome" where
  "deleteVolume E vid w = andThen (perform E (FlyDeleteVolume vid) w) (\<lambda>_ w'. (Inr (), w'))"

definition createMachine :: "Env \<Rightarrow> MachineConfig \<Rightarrow> World \<Rightarrow> string outcome" where
  "createMachine E cfg w = perform E (FlyCreateMachine cfg) w"

text \<open>
  \<^verbatim>\<open>
  async destroyMachine(machineId) {
    try { await this.request('POST', `.../machines/${machineId}/stop`); } catch (error) { }
    try { await this.request('DELETE', `.../machines/${machineId}?force=true`); }
    catch (error) { throw error; }
  }
  \<close>
\<close>

definition destroyMachine :: "Env \<Rightarrow> string \<Rightarrow> World \<Rightarrow> unit outcome" where
  "destroyMachine E mid w =
     (let w1 = swallow (perform E (FlyStopMachine mid) w)
      in andThen (perform E (FlyDestroyMachine mid) w1) (\<lambda>_ w'. (Inr (), w')))"

record CreateWorkerConfig =
  cw_jobId :: string
  cw_fileIds :: "string list"
  cw_fileSizes :: "int list"
  cw_accessToken :: string
  cw_refreshToken :: "string option"
  cw_immichApiKey :: string
  cw_webhookUrl :: string
  cw_webhookSecret :: string
  cw_immichServerUrl :: string
  cw_googleClientId :: string
  cw_googleClientSecret :: string
  cw_region :: "string option"

text \<open>\<open>a || b\<close> on an optional string: the empty string and \<open>undefined\<close> are falsy.\<close>

definition orElse :: "string option \<Rightarrow> string \<Rightarrow> string" where
  "orElse a b = (case a of None \<Rightarrow> b | Some x \<Rightarrow> if x = [] then b else x)"

definition workerEnv :: "CreateWorkerConfig \<Rightarrow> (string \<times> string) list" where
  "workerEnv c =
     [(''WORKER_JOB_ID'', cw_jobId c),
      (''WORKER_FILE_IDS'', stableStringify (JArr (map JStr (cw_fileIds c)))),
      (''WORKER_ACCESS_TOKEN'', cw_accessToken c),
      (''WORKER_REFRESH_TOKEN'', orElse (cw_refreshToken c) []),
      (''GOOGLE_CLIENT_ID'', cw_googleClientId c),
      (''GOOGLE_CLIENT_SECRET'', cw_googleClientSecret c),
      (''IMMICH_SERVER_URL'', cw_immichServerUrl c),
      (''IMMICH_API_KEY'', cw_immichApiKey c),
      (''WEBHOOK_URL'', cw_webhookUrl c),
      (''WEBHOOK_SECRET'', cw_webhookSecret c),
      (''VOLUME_PATH'', ''/data'')]"

text \<open>
  \<^verbatim>\<open>
  async createWorker(config) {
    const region = config.region || 'ord';
    const volumeSizeGb = this.calculateVolumeSizeGb(config.fileSizes);
    const volumeId = await this.createVolume(volumeSizeGb, region);
    try {
      const machineId = await this.createMachine({ name: `import-${config.jobId.slice(0, 8)}`,
        region, volumeId, volumePath: '/data', env: { ... } });
      return { machineId, volumeId };
    } catch (error) {
      try { await this.deleteVolume(volumeId); } catch (cleanupError) { }
      throw error;
    }
  }
  \<close>
  \<open>JSON.stringify(config.fileIds)\<close> of an array of strings is what \<open>stableStringify\<close>
  writes for it, since no object occurs in it.
\<close>

definition createWorker :: "Env \<Rightarrow> CreateWorkerConfig \<Rightarrow> World \<Rightarrow> (string \<times> string) outcome" where
  "createWorker E c w =
     (let region = orElse (cw_region c) ''ord'';
          volumeSizeGb = calculateVolumeSizeGb (cw_fileSizes c)
      in andThen (createVolume E volumeSizeGb region w) (\<lambda>vid w1.
           let r = createMachine E
                     \<lparr>mc_name = ''import-'' @ take 8 (cw_jobId c), mc_region = region,
                      mc_env = workerEnv c, mc_volumeId = vid, mc_volumePath = ''/data'',
                      mc_memoryMb = None, mc_cpus = None\<rparr> w1
           in case fst r of
                Inr mid \<Rightarrow> (Inr (mid, vid), snd r)
              | Inl error \<Rightarrow> (Inl error, swallow (deleteVolume E vid (snd r)))))"

text \<open>
  \<^verbatim>\<open>
  async cleanupWorker(machineId, volumeId) {
    try { await this.destroyMachine(machineId); } catch (error) { }
    await new Promise((resolve) => setTimeout(resolve, 2000));
    try { await this.deleteVolume(volumeId); } catch (error) { }
  }
  \<close>
\<close>

definition cleanupWorker :: "Env \<Rightarrow> string \<Rightarrow> string \<Rightarrow> World \<Rightarrow> World" where
  "cleanupWorker E mid vid w = swallow (deleteVolume E vid (swallow (destroyMachine E mid w)))"

subsection \<open>Starting a job (\<open>createImportJobWithFlyWorker\<close>)\<close>

definition temporaryKeyPermissions :: "Permission list" where
  "temporaryKeyPermissions =
     [UserRead, AssetUpload, AssetRead, AlbumCreate, AlbumRead, AlbumUpdate, AlbumAssetCreate]"

text \<open>\<open>createTemporaryApiKey\<close> returns the pair of the key's id and its secret.\<close>

definition createTemporaryApiKey :: "Env \<Rightarrow> string \<Rightarrow> World \<Rightarrow> (string \<times> string) outcome" where
  "createTemporaryApiKey E uid w =
     andThen (perform E (RandomBytesAsText 32) w) (\<lambda>token w1.
     andThen (perform E (ApiKeyCreate (hashSha256 E token) ''Google Photos Import (temporary)''
                           uid temporaryKeyPermissions) w1) (\<lambda>kid w2.
       (Inr (kid, token), w2)))"

definition initialJobMetadata ::
  "string \<Rightarrow> string \<Rightarrow> string list \<Rightarrow> string \<Rightarrow> string \<Rightarrow> string \<Rightarrow> FlyWorkerJobMetadata" where
  "initialJobMetadata jid uid fileIds secret keyId now =
     \<lparr>jobId = jid, userId = uid, machineId = [], volumeId = [], status = Creating,
      progress = \<lparr>phase = PhaseDownloading, current = 0, total = int (length fileIds),
                  currentFile = None, albumsFound = 0, photosImported = 0,
                  bytesDownloaded = None, totalBytes = None, errors = [],
                  events = [\<lparr>timestamp = now, type = Info, message = ''Starting import job...''\<rparr>]\<rparr>,
      webhookSecret = secret, tempApiKeyId = keyId, createdAt = now, updatedAt = now\<rparr>"

text \<open>
  The body of the \<open>try\<close> after \<open>createWorker\<close> has returned, and the \<open>catch\<close> block.
  \<^verbatim>\<open>
      jobMetadata.machineId = machineId;
      jobMetadata.volumeId = volumeId;
      jobMetadata.status = 'downloading';
      jobMetadata.updatedAt = new Date().toISOString();
      this.addEvent(jobMetadata, 'success', 'Worker started successfully');
      this.addEvent(jobMetadata, 'info', `Preparing to download ${fileIds.length} files...`);
      await this.saveWorkerJob(jobMetadata);
      return { id: jobId, machineId, volumeId };
    } catch (error) {
      jobMetadata.status = 'failed';
      jobMetadata.progress.errors.push(`Failed to create worker: ${error}`);
      jobMetadata.updatedAt = new Date().toISOString();
      await this.saveWorkerJob(jobMetadata);
      try { await this.apiKeyRepository.delete(userId, apiKey.id); } catch {}
      throw error;
    }
  \<close>
\<close>

definition workerStarted ::
  "Env \<Rightarrow> FlyWorkerJobMetadata \<Rightarrow> string list \<Rightarrow> string \<Rightarrow> string \<Rightarrow> World
     \<Rightarrow> (string \<times> string \<times> string) outcome" where
  "workerStarted E jobMetadata fileIds mid vid w =
     (let (now, w1) = newDate E w;
          job1 = jobMetadata\<lparr>machineId := mid, volumeId := vid, status := Downloading,
                             updatedAt := now\<rparr>;
          st2 = addEventNow E Success ''Worker started successfully'' (job1, w1);
          st3 = addEventNow E Info
                  (''Preparing to download '' @ show_int (int (length fileIds)) @ '' files...'') st2
      in (Inr (jobId jobMetadata, mid, vid), saveWorkerJob (fst st3) (snd st3)))"

definition workerFailed ::
  "Env \<Rightarrow> FlyWorkerJobMetadata \<Rightarrow> string \<Rightarrow> string \<Rightarrow> JsError \<Rightarrow> World
     \<Rightarrow> (string \<times> string \<times> string) outcome" where
  "workerFailed E jobMetadata uid keyId error w =
     (let job1 = jobMetadata\<lparr>status := Failed,
                   progress := (progress jobMetadata)\<lparr>errors :=
                     errors (progress jobMetadata) @ [''Failed to create worker: '' @ errorToString error]\<rparr>\<rparr>;
          (now, w1) = newDate E w;
          job2 = job1\<lparr>updatedAt := now\<rparr>;
          w2 = saveWorkerJob job2 w1;
          w3 = swallow (perform E (ApiKeyDelete uid keyId) w2)
      in (Inl error, w3))"

text \<open>
  \<^verbatim>\<open>
  async createImportJobWithFlyWorker(userId, fileIds, fileSizes) {
    const jobId = this.cryptoRepository.randomUUID();
    const webhookSecret = this.cryptoRepository.randomBytesAsText(32);
    const tokens = await this.getGoogleDriveTokens(userId);
    if (!tokens) { throw new Error('Google Drive not connected'); }
    const config = await this.getConfig({ withCache: true });
    const oauth = config.oauth;
    if (!oauth.enabled || !oauth.clientId || !oauth.clientSecret) { throw new Error('OAuth not configured. ...'); }
    const apiKey = await this.createTemporaryApiKey(userId);
    const serverUrl = config.server.externalDomain || process.env.IMMICH_URL;
    if (!serverUrl) { throw new Error('IMMICH_URL not configured'); }
    const webhookUrl = `${serverUrl}/api/google-photos/worker-webhook`;
    const now = new Date().toISOString();
    const jobMetadata = { ... };
    await this.saveWorkerJob(jobMetadata);
    try {
      const { machineId, volumeId } = await flyService.createWorker({ ... });
      ...
  \<close>
  The result is the triple \<open>(id, machineId, volumeId)\<close>.
\<close>

definition createImportJobWithFlyWorker ::
  "Env \<Rightarrow> string \<Rightarrow> string list \<Rightarrow> int list \<Rightarrow> World \<Rightarrow> (string \<times> string \<times> string) outcome" where
  "createImportJobWithFlyWorker E uid fileIds fileSizes w =
     andThen (perform E RandomUUID w) (\<lambda>jid w1.
     andThen (perform E (RandomBytesAsText 32) w1) (\<lambda>secret w2.
       case driveTokens E uid of
         None \<Rightarrow> (Inl (JsError ''Error'' ''Google Drive not connected''), w2)
       | Some tokens \<Rightarrow>
           if \<not> oauth_enabled (config E) \<or> oauth_clientId (config E) = []
                \<or> oauth_clientSecret (config E) = []
           then (Inl (JsError ''Error''
                   ''OAuth not configured. Please set up OAuth in Administration > Settings.''), w2)
           else
             andThen (createTemporaryApiKey E uid w2) (\<lambda>apiKey w3.
               let serverUrl = orElse (Some (server_externalDomain (config E)))
                                 (orElse (IMMICH_URL E) [])
               in if serverUrl = [] then (Inl (JsError ''Error'' ''IMMICH_URL not configured''), w3)
                  else
                    let webhookUrl = serverUrl @ ''/api/google-photos/worker-webhook'';
                        (now, w4) = newDate E w3;
                        jobMetadata = initialJobMetadata jid uid fileIds secret (fst apiKey) now;
                        w5 = saveWorkerJob jobMetadata w4;
                        r = createWorker E
                              \<lparr>cw_jobId = jid, cw_fileIds = fileIds, cw_fileSizes = fileSizes,
                               cw_accessToken = accessToken tokens,
                               cw_refreshToken = refreshToken tokens,
                               cw_immichApiKey = snd apiKey, cw_webhookUrl = webhookUrl,
                               cw_webhookSecret = secret, cw_immichServerUrl = serverUrl,
                               cw_googleClientId = oauth_clientId (config E),
                               cw_googleClientSecret = oauth_clientSecret (config E),
                               cw_region = None\<rparr> w5
                    in case fst r of
                         Inr ids \<Rightarrow> workerStarted E jobMetadata fileIds (fst ids) (snd ids) (snd r)
                       | Inl error \<Rightarrow> workerFailed E jobMetadata uid (fst apiKey) error (snd r))))"

subsection \<open>Cleaning up (\<open>cleanupWorkerJob\<close>, \<open>cleanupJob\<close>) and cancelling\<close>

text \<open>
  \<^verbatim>\<open>
  async cleanupWorkerJob(jobId) {
    const job = await this.getWorkerJob(jobId);
    if (!job) { return; }
    job.status = 'cleanup';
    job.updatedAt = new Date().toISOString();
    await this.saveWorkerJob(job);
    if (job.tempApiKeyId) {
      try { await this.apiKeyRepository.delete(job.userId, job.tempApiKeyId); } catch (error) { }
    }
    if (job.machineId && job.volumeId) {
      try { await flyService.cleanupWorker(job.machineId, job.volumeId); } catch (error) { }
    }
    job.updatedAt = new Date().toISOString();
    await this.saveWorkerJob(job);
  }
  \<close>
\<close>

definition cleanupWorkerJob :: "Env \<Rightarrow> string \<Rightarrow> World \<Rightarrow> unit outcome" where
  "cleanupWorkerJob E jid w =
     (case getWorkerJob jid w of
        None \<Rightarrow> (Inr (), w)
      | Some job \<Rightarrow>
          let (now1, w1) = newDate E w;
              job1 = job\<lparr>status := Cleanup, updatedAt := now1\<rparr>;
              w2 = saveWorkerJob job1 w1;
              w3 = (if tempApiKeyId job1 \<noteq> []
                    then swallow (perform E (ApiKeyDelete (userId job1) (tempApiKeyId job1)) w2)
                    else w2);
              w4 = (if machineId job1 \<noteq> [] \<and> volumeId job1 \<noteq> []
                    then cleanupWorker E (machineId job1) (volumeId job1) w3
                    else w3);
              (now2, w5) = newDate E w4;
              job2 = job1\<lparr>updatedAt := now2\<rparr>
          in (Inr (), saveWorkerJob job2 w5))"

text \<open>
  \<^verbatim>\<open>
  private async cleanupJob(job: ImportJob) {
    if (job.tempApiKeyId) {
      try { await this.apiKeyRepository.delete(job.userId, job.tempApiKeyId); } catch (error) { }
    }
    const jobDir = path.join(this.tempDir, job.id);
    try { await rm(jobDir, { recursive: true, force: true }); } catch (error) { }
  }
  \<close>
\<close>

definition tempDir :: string where
  "tempDir = ''/tmp/immich-google-photos-import''"

definition cleanupJob :: "Env \<Rightarrow> ImportJob \<Rightarrow> World \<Rightarrow> World" where
  "cleanupJob E job w =
     (let w1 = (if orElse (ij_tempApiKeyId job) [] \<noteq> []
                then swallow (perform E (ApiKeyDelete (ij_userId job) (orElse (ij_tempApiKeyId job) [])) w)
                else w)
      in swallow (perform E (RmDir (tempDir @ ''/'' @ ij_id job)) w1))"

text \<open>
  \<^verbatim>\<open>
  async cancelJob(jobId) {
    const job = this.jobs.get(jobId);
    if (job) {
      job.abortController?.abort();
      job.status = 'failed';
      job.progress.errors.push('Cancelled by user');
      await this.cleanupJob(job);
    }
  }
  \<close>
  The job object is shared with the map, so its mutation is a mutation of the map's entry.
\<close>

definition cancelJob :: "Env \<Rightarrow> string \<Rightarrow> World \<Rightarrow> unit outcome" where
  "cancelJob E jid w =
     (case jobs w jid of
        None \<Rightarrow> (Inr (), w)
      | Some job \<Rightarrow>
          let job1 = job\<lparr>ij_abortController := map_option (\<lambda>_. True) (ij_abortController job),
                         ij_status := JobFailed,
                         ij_progress := (ij_progress job)\<lparr>errors :=
                            errors (ij_progress job) @ [''Cancelled by user'']\<rparr>\<rparr>;
              w1 = w\<lparr>jobs := (jobs w)(jid \<mapsto> job1)\<rparr>
          in (Inr (), cleanupJob E job1 w1))"

text \<open>
  \<^verbatim>\<open>
  async cancelWorkerJob(jobId) {
    const job = await this.getWorkerJob(jobId);
    if (!job) { return this.cancelJob(jobId); }
    job.status = 'failed';
    job.progress.errors.push('Cancelled by user');
    job.updatedAt = new Date().toISOString();
    await this.saveWorkerJob(job);
    await this.cleanupWorkerJob(jobId);
  }
  \<close>
\<close>

definition cancelled :: "FlyWorkerJobMetadata \<Rightarrow> string \<Rightarrow> FlyWorkerJobMetadata" where
  "cancelled job now =
     job\<lparr>status := Failed,
         progress := (progress job)\<lparr>errors := errors (progress job) @ [''Cancelled by user'']\<rparr>,
         updatedAt := now\<rparr>"

definition cancelWorkerJob :: "Env \<Rightarrow> string \<Rightarrow> World \<Rightarrow> unit outcome" where
  "cancelWorkerJob E jid w =
     (case getWorkerJob jid w of
        None \<Rightarrow> cancelJob E jid w
      | Some job \<Rightarrow>
          let (now, w1) = newDate E w;
              w2 = saveWorkerJob (cancelled job now) w1
          in cleanupWorkerJob E jid w2)"

subsection \<open>Webhooks (\<open>handleWorkerWebhook\<close>)\<close>

record WorkerProgressPayloadDto =
  pp_current :: int
  pp_total :: int
  pp_currentFile :: "string option"

record WorkerProgressDto =
  wp_jobId :: string
  wp_phase :: Phase
  wp_progress :: WorkerProgressPayloadDto
  wp_bytesDownloaded :: "int option"
  wp_totalBytes :: "int option"
  wp_photosImported :: "int option"
  wp_albumsFound :: "int option"
  wp_errors :: "string list option"

definition phaseName :: "Phase \<Rightarrow> string" where
  "phaseName p =
     (case p of PhaseDownloading \<Rightarrow> ''downloading'' | PhaseProcessing \<Rightarrow> ''processing''
              | PhaseComplete \<Rightarrow> ''complete'' | PhaseFailed \<Rightarrow> ''failed'')"

text \<open>
  The payload as the JSON object that \<open>stableStringify\<close> receives: the fields of the
  DTO, an optional field being a member only when it is present.
\<close>

definition optionalMember :: "string \<Rightarrow> ('a \<Rightarrow> json) \<Rightarrow> 'a option \<Rightarrow> (string \<times> json) list" where
  "optionalMember k f v = (case v of None \<Rightarrow> [] | Some x \<Rightarrow> [(k, f x)])"

definition payloadJson :: "WorkerProgressDto \<Rightarrow> json" where
  "payloadJson p =
     JObj ([(''jobId'', JStr (wp_jobId p)),
            (''phase'', JStr (phaseName (wp_phase p))),
            (''progress'',
               JObj ([(''current'', JNum (pp_current (wp_progress p))),
                      (''total'', JNum (pp_total (wp_progress p)))]
                     @ optionalMember ''currentFile'' JStr (pp_currentFile (wp_progress p))))]
           @ optionalMember ''bytesDownloaded'' JNum (wp_bytesDownloaded p)
           @ optionalMember ''totalBytes'' JNum (wp_totalBytes p)
           @ optionalMember ''photosImported'' JNum (wp_photosImported p)
           @ optionalMember ''albumsFound'' JNum (wp_albumsFound p)
           @ optionalMember ''errors'' (\<lambda>es. JArr (map JStr es)) (wp_errors p))"

text \<open>
  \<open>crypto.timingSafeEqual(a, b)\<close> throws a \<open>RangeError\<close> when the two buffers differ in
  byte length, and otherwise tells whether they hold the same bytes.
\<close>

definition timingSafeEqual :: "string \<Rightarrow> string \<Rightarrow> JsError + bool" where
  "timingSafeEqual a b =
     (if length a \<noteq> length b
      then Inl (JsError ''RangeError'' ''Input buffers must have the same byte length'')
      else Inr (a = b))"

definition statusOfPhase :: "Phase \<Rightarrow> FlyWorkerJobStatus" where
  "statusOfPhase p =
     (if p = PhaseComplete then Complete else if p = PhaseFailed then Failed
      else (case p of PhaseDownloading \<Rightarrow> Downloading | PhaseProcessing \<Rightarrow> Processing
                    | PhaseComplete \<Rightarrow> Complete | PhaseFailed \<Rightarrow> Failed))"

text \<open>
  The part of \<open>handleWorkerWebhook\<close> after the signature has been accepted.
  \<^verbatim>\<open>
    const now = new Date().toISOString();
    const prevPhase = job.progress.phase;
    const prevCurrent = job.progress.current;
    job.status = phase === 'complete' ? 'complete' : phase === 'failed' ? 'failed' : phase;
    job.progress.phase = phase;
    job.progress.current = progress.current;
    job.progress.total = progress.total;
    job.progress.currentFile = progress.currentFile;
    job.progress.bytesDownloaded = bytesDownloaded;
    job.progress.totalBytes = totalBytes;
    if (photosImported !== undefined) { job.progress.photosImported = photosImported; }
    if (albumsFound !== undefined) { job.progress.albumsFound = albumsFound; }
    if (errors && errors.length > 0) {
      job.progress.errors.push(...errors);
      for (const error of errors) { this.addEvent(job, 'error', error); }
    }
    if (phase !== prevPhase) {
      if (phase === 'downloading') { this.addEvent(job, 'info', 'Starting file downloads from Google Drive...'); }
      else if (phase === 'processing') {
        this.addEvent(job, 'success', `Downloaded ${progress.total} files`);
        this.addEvent(job, 'info', 'Processing with immich-go...'); }
      else if (phase === 'complete') {
        this.addEvent(job, 'success', `Import complete! ${job.progress.photosImported} photos imported.`); }
      else if (phase === 'failed') { this.addEvent(job, 'error', 'Import failed'); }
    }
    if (phase === 'downloading' && progress.currentFile && progress.current !== prevCurrent) {
      this.addEvent(job, 'download', `Downloading ${progress.currentFile}`);
    }
    if (albumsFound !== undefined && albumsFound > (job.progress.albumsFound || 0)) {
      this.addEvent(job, 'album', `Found ${albumsFound} albums`);
    }
    job.updatedAt = now;
    await this.saveWorkerJob(job);
    if (phase === 'complete' || phase === 'failed') {
      this.cleanupWorkerJob(jobId).catch((error) => { ... });
    }
  \<close>
  The album test reads \<open>job.progress.albumsFound\<close> after the assignment above it. The
  cleanup that is started and not awaited is recorded in \<open>background\<close>.
\<close>

definition mergeFields :: "WorkerProgressDto \<Rightarrow> FlyWorkerJobMetadata \<Rightarrow> FlyWorkerJobMetadata" where
  "mergeFields payload job =
     (let job1 = job\<lparr>status := statusOfPhase (wp_phase payload),
                     progress := (progress job)\<lparr>
                       phase := wp_phase payload,
                       current := pp_current (wp_progress payload),
                       total := pp_total (wp_progress payload),
                       currentFile := pp_currentFile (wp_progress payload),
                       bytesDownloaded := wp_bytesDownloaded payload,
                       totalBytes := wp_totalBytes payload\<rparr>\<rparr>;
          job2 = (case wp_photosImported payload of
                    None \<Rightarrow> job1
                  | Some n \<Rightarrow> job1\<lparr>progress := (progress job1)\<lparr>photosImported := n\<rparr>\<rparr>);
          job3 = (case wp_albumsFound payload of
                    None \<Rightarrow> job2
                  | Some n \<Rightarrow> job2\<lparr>progress := (progress job2)\<lparr>albumsFound := n\<rparr>\<rparr>)
      in job3)"

definition pushErrors ::
  "Env \<Rightarrow> string list option \<Rightarrow> FlyWorkerJobMetadata \<times> World \<Rightarrow> FlyWorkerJobMetadata \<times> World" where
  "pushErrors E errs st =
     (case errs of
        None \<Rightarrow> st
      | Some es \<Rightarrow>
          if length es > 0
          then foldl (\<lambda>s error. addEventNow E Error error s)
                 ((fst st)\<lparr>progress := (progress (fst st))\<lparr>errors := errors (progress (fst st)) @ es\<rparr>\<rparr>,
                  snd st) es
          else st)"

definition phaseEvents ::
  "Env \<Rightarrow> WorkerProgressDto \<Rightarrow> Phase \<Rightarrow> FlyWorkerJobMetadata \<times> World \<Rightarrow> FlyWorkerJobMetadata \<times> World" where
  "phaseEvents E payload prevPhase st =
     (if wp_phase payload \<noteq> prevPhase then
        (case wp_phase payload of
           PhaseDownloading \<Rightarrow> addEventNow E Info ''Starting file downloads from Google Drive...'' st
         | PhaseProcessing \<Rightarrow>
             addEventNow E Info ''Processing with immich-go...''
               (addEventNow E Success
                  (''Downloaded '' @ show_int (pp_total (wp_progress payload)) @ '' files'') st)
         | PhaseComplete \<Rightarrow>
             addEventNow E Success
               (''Import complete! '' @ show_int (photosImported (progress (fst st)))
                  @ '' photos imported.'') st
         | PhaseFailed \<Rightarrow> addEventNow E Error ''Import failed'' st)
      else st)"

definition downloadEvent ::
  "Env \<Rightarrow> WorkerProgressDto \<Rightarrow> int \<Rightarrow> FlyWorkerJobMetadata \<times> World \<Rightarrow> FlyWorkerJobMetadata \<times> World" where
  "downloadEvent E payload prevCurrent st =
     (if wp_phase payload = PhaseDownloading
         \<and> orElse (pp_currentFile (wp_progress payload)) [] \<noteq> []
         \<and> pp_current (wp_progress payload) \<noteq> prevCurrent
      then addEventNow E Download
             (''Downloading '' @ orElse (pp_currentFile (wp_progress payload)) []) st
      else st)"

definition albumEvent ::
  "Env \<Rightarrow> WorkerProgressDto \<Rightarrow> FlyWorkerJobMetadata \<times> World \<Rightarrow> FlyWorkerJobMetadata \<times> World" where
  "albumEvent E payload st =
     (case wp_albumsFound payload of
        None \<Rightarrow> st
      | Some n \<Rightarrow>
          if n > albumsFound (progress (fst st))
          then addEventNow E Album (''Found '' @ show_int n @ '' albums'') st
          else st)"

definition applyWebhook :: "Env \<Rightarrow> WorkerProgressDto \<Rightarrow> FlyWorkerJobMetadata \<Rightarrow> World \<Rightarrow> unit outcome" where
  "applyWebhook E payload job w =
     (let (now, w1) = newDate E w;
          prevPhase = phase (progress job);
          prevCurrent = current (progress job);
          st1 = pushErrors E (wp_errors payload) (mergeFields payload job, w1);
          st2 = phaseEvents E payload prevPhase st1;
          st3 = downloadEvent E payload prevCurrent st2;
          st4 = albumEvent E payload st3;
          w5 = saveWorkerJob ((fst st4)\<lparr>updatedAt := now\<rparr>) (snd st4);
          w6 = (if wp_phase payload = PhaseComplete \<or> wp_phase payload = PhaseFailed
                then w5\<lparr>background := background w5 @ [wp_jobId payload]\<rparr>
                else w5)
      in (Inr (), w6))"

text \<open>
  \<^verbatim>\<open>
  async handleWorkerWebhook(signature, payload, rawBody) {
    const { jobId, phase, progress, ... } = payload;
    const job = await this.getWorkerJob(jobId);
    if (!job) { throw new Error('Job not found'); }
    const payloadString = this.stableStringify(payload);
    const expectedSignature = createHmac('sha256', job.webhookSecret).update(payloadString).digest('hex');
    if (!timingSafeEqual(Buffer.from(signature), Buffer.from(expectedSignature))) {
      throw new Error('Invalid signature');
    }
    ...
  \<close>
  The keyed hash is the environment's \<open>hmacSha256Hex secret message\<close>.
\<close>

definition expectedSignature :: "Env \<Rightarrow> FlyWorkerJobMetadata \<Rightarrow> WorkerProgressDto \<Rightarrow> string" where
  "expectedSignature E job payload =
     hmacSha256Hex E (webhookSecret job) (stableStringify (payloadJson payload))"

definition handleWorkerWebhook :: "Env \<Rightarrow> string \<Rightarrow> WorkerProgressDto \<Rightarrow> World \<Rightarrow> unit outcome" where
  "handleWorkerWebhook E signature payload w =
     (case getWorkerJob (wp_jobId payload) w of
        None \<Rightarrow> (Inl (JsError ''Error'' ''Job not found''), w)
      | Some job \<Rightarrow>
          (case timingSafeEqual signature (expectedSignature E job payload) of
             Inl rangeError \<Rightarrow> (Inl rangeError, w)
           | Inr equal \<Rightarrow>
               if \<not> equal then (Inl (JsError ''Error'' ''Invalid signature''), w)
               else applyWebhook E payload job w))"


subsection \<open>Notions used in the statements\<close>


text \<open>The timeline after \<open>new\<close> events have been added, one \<open>addEvent\<close> each, to \<open>old\<close>.\<close>

definition appendWindow :: "'a list \<Rightarrow> 'a list \<Rightarrow> 'a list" where
  "appendWindow old new = (if new = [] then old else slice_last 100 (old @ new))"

definition withEvents :: "FlyWorkerJobMetadata \<Rightarrow> ActivityEventDto list \<Rightarrow> FlyWorkerJobMetadata" where
  "withEvents job evs = job\<lparr>progress := (progress job)\<lparr>events := evs\<rparr>\<rparr>"

definition payloadErrors :: "WorkerProgressDto \<Rightarrow> string list" where
  "payloadErrors payload = (case wp_errors payload of None \<Rightarrow> [] | Some es \<Rightarrow> es)"

text \<open>The state of a webhook's local job and world between two of its steps.\<close>

definition eventsOnly ::
  "FlyWorkerJobMetadata \<Rightarrow> World \<Rightarrow> FlyWorkerJobMetadata \<times> World \<Rightarrow> bool" where
  "eventsOnly job w st =
     ((\<exists>new. fst st = withEvents job (appendWindow (events (progress job)) new))
      \<and> (\<exists>n. snd st = w\<lparr>ticks := n\<rparr>))"

definition isRevocation :: "Call \<Rightarrow> bool" where
  "isRevocation c = (case c of ApiKeyDelete u k \<Rightarrow> True | _ \<Rightarrow> False)"

text \<open>The external calls of one run of \<open>cleanupWorkerJob\<close> on a stored job, in order.\<close>

definition cleanupCalls :: "FlyWorkerJobMetadata \<Rightarrow> Call list" where
  "cleanupCalls job =
     (if tempApiKeyId job \<noteq> [] then [ApiKeyDelete (userId job) (tempApiKeyId job)] else [])
     @ (if machineId job \<noteq> [] \<and> volumeId job \<noteq> []
        then [FlyStopMachine (machineId job), FlyDestroyMachine (machineId job),
              FlyDeleteVolume (volumeId job)]
        else [])"

text \<open>What a webhook stores, but for the timeline and \<open>updatedAt\<close>.\<close>

definition mergedJob :: "WorkerProgressDto \<Rightarrow> FlyWorkerJobMetadata \<Rightarrow> FlyWorkerJobMetadata" where
  "mergedJob payload job =
     (let m = mergeFields payload job
      in m\<lparr>progress := (progress m)\<lparr>errors := errors (progress m) @ payloadErrors payload\<rparr>\<rparr>)"

subsection \<open>Example inputs\<close>

definition exampleEnv :: Env where
  "exampleEnv =
     \<lparr>respond = (\<lambda>n. Inr ''id''),
      clock = (\<lambda>n. ''2024-01-01T00:00:00.000Z''),
      hmacSha256Hex = (\<lambda>secret msg. take 64 (secret @ msg @ replicate 64 (CHR ''0''))),
      hashSha256 = (\<lambda>x. x),
      driveTokens = (\<lambda>u. Some \<lparr>accessToken = ''at'', refreshToken = None, expiresAt = None\<rparr>),
      config = \<lparr>oauth_enabled = True, oauth_clientId = ''cid'', oauth_clientSecret = ''cs'',
                server_externalDomain = ''https://immich.example''\<rparr>,
      IMMICH_URL = None\<rparr>"

definition exampleJob :: FlyWorkerJobMetadata where
  "exampleJob =
     (initialJobMetadata ''job-1'' ''user-1'' [''f1'', ''f2''] ''s3cret'' ''key-1'' ''t0'')
       \<lparr>machineId := ''m-1'', volumeId := ''v-1'', status := Downloading\<rparr>"

definition emptyWorld :: World where
  "emptyWorld = \<lparr>systemMetadata = Map.empty, jobs = Map.empty, calls = [], ticks = 0, background = []\<rparr>"

definition exampleWorld :: World where
  "exampleWorld = saveWorkerJob exampleJob emptyWorld"

definition examplePayload :: WorkerProgressDto where
  "examplePayload =
     \<lparr>wp_jobId = ''job-1'', wp_phase = PhaseDownloading,
      wp_progress = \<lparr>pp_current = 5, pp_total = 10, pp_currentFile = Some ''takeout-1.zip''\<rparr>,
      wp_bytesDownloaded = Some 1024, wp_totalBytes = Some 4096, wp_photosImported = None,
      wp_albumsFound = None, wp_errors = None\<rparr>"

definition failingEnv :: Env where
  "failingEnv =
     exampleEnv\<lparr>respond :=
       (\<lambda>n. if n = 0 then Inr ''job-1'' else if n = 1 then Inr ''whsec'' else if n = 2 then Inr ''tok''
             else if n = 3 then Inr ''key-1'' else if n = 4 then Inr ''vol-1''
             else if n = 5 then Inl (JsError ''Error'' ''Fly API error: 500 no capacity'')
             else Inr [])\<rparr>"

definition terminalWorld :: World where
  "terminalWorld = saveWorkerJob (exampleJob\<lparr>status := Complete\<rparr>) emptyWorld"




definition bytesJob :: FlyWorkerJobMetadata where
  "bytesJob = exampleJob\<lparr>progress := (progress exampleJob)\<lparr>bytesDownloaded := Some 1024,
                                                           totalBytes := Some 4096\<rparr>\<rparr>"

definition bytesWorld :: World where
  "bytesWorld = saveWorkerJob bytesJob emptyWorld"

definition quietPayload :: WorkerProgressDto where
  "quietPayload = examplePayload\<lparr>wp_bytesDownloaded := None, wp_totalBytes := None\<rparr>"

definition countsPayload :: WorkerProgressDto where
  "countsPayload = examplePayload\<lparr>wp_photosImported := Some 7, wp_albumsFound := Some 2\<rparr>"

section \<open>Properties\<close>

subsection \<open>Volume sizing\<close>

lemma foldl_plus_sum_list: "foldl (\<lambda>sum size. sum + size) a xs = a + sum_list (xs :: int list)"
  by (induction xs arbitrary: a) simp_all

lemma calculateVolumeSizeGb_sum:
  "calculateVolumeSizeGb fs = max 10 (min 100 (\<lceil>real_of_int (sum_list fs) / 2 ^ 30\<rceil> + 5))"
  by (simp add: calculateVolumeSizeGb_def foldl_plus_sum_list)

text \<open>
  C9. For every list of file sizes, \<open>calculateVolumeSizeGb\<close> returns
  \<open>clamp(ceil(sum(fileSizes) / 1GiB) + fixedBufferGB, minGB, maxGB)\<close>, with buffer 5,
  minimum 10 and maximum 100. The empty list gives the minimum; a total above 95 GiB
  gives the maximum; both bounds are attained, the minimum also by a total of exactly
  5 GiB and the maximum by a total of exactly 95 GiB, where the clamp changes nothing.
\<close>

theorem calculateVolumeSizeGb_clamp:
  "calculateVolumeSizeGb fs
     = clamp (\<lceil>real_of_int (sum_list fs) / real_of_int GiB\<rceil> + fixedBufferGB) minGB maxGB
   \<and> calculateVolumeSizeGb [] = minGB
   \<and> (95 * GiB < sum_list fs \<longrightarrow> calculateVolumeSizeGb fs = maxGB)
   \<and> calculateVolumeSizeGb [5 * GiB] = minGB
   \<and> calculateVolumeSizeGb [95 * GiB] = maxGB
   \<and> minGB \<le> calculateVolumeSizeGb fs \<and> calculateVolumeSizeGb fs \<le> maxGB"
proof -
  let ?c = "\<lceil>real_of_int (sum_list fs) / 2 ^ 30\<rceil>"
  have eq: "calculateVolumeSizeGb fs = max 10 (min 100 (?c + 5))"
    by (rule calculateVolumeSizeGb_sum)
  have big: "95 < ?c" if "95 * 2 ^ 30 < sum_list fs"
  proof -
    have "real_of_int (95 * 2 ^ 30) < real_of_int (sum_list fs)"
      using that by (simp only: of_int_less_iff)
    then have "(95::real) < real_of_int (sum_list fs) / 2 ^ 30"
      by (simp add: field_simps)
    then show ?thesis
      by (simp add: less_ceiling_iff)
  qed
  have c1: "calculateVolumeSizeGb fs
     = clamp (\<lceil>real_of_int (sum_list fs) / real_of_int GiB\<rceil> + fixedBufferGB) minGB maxGB"
    by (simp add: eq clamp_def GiB_def fixedBufferGB_def minGB_def maxGB_def)
  have c2: "calculateVolumeSizeGb [] = minGB"
    by (simp add: calculateVolumeSizeGb_def minGB_def)
  have c3: "95 * GiB < sum_list fs \<longrightarrow> calculateVolumeSizeGb fs = maxGB"
    using big by (auto simp: eq GiB_def maxGB_def)
  have c4: "calculateVolumeSizeGb [5 * GiB] = minGB"
    by (simp add: calculateVolumeSizeGb_def GiB_def minGB_def)
  have c5: "calculateVolumeSizeGb [95 * GiB] = maxGB"
    by (simp add: calculateVolumeSizeGb_def GiB_def maxGB_def)
  have c6: "minGB \<le> calculateVolumeSizeGb fs \<and> calculateVolumeSizeGb fs \<le> maxGB"
    by (simp add: eq minGB_def maxGB_def)
  from c1 c2 c3 c4 c5 c6 show ?thesis by blast
qed

theorem calculateVolumeSizeGb_clamp_witness:
  "95 * GiB < sum_list [60 * GiB, 60 * GiB] \<and> calculateVolumeSizeGb [60 * GiB, 60 * GiB] = maxGB"
  using calculateVolumeSizeGb_clamp [of "[60 * GiB, 60 * GiB]"]
  by (simp add: GiB_def)

subsection \<open>The activity timeline\<close>

lemma events_addEvent:
  "events (progress (addEvent job now ty msg))
     = slice_last 100 (events (progress job) @ [\<lparr>timestamp = now, type = ty, message = msg\<rparr>])"
  by (simp add: addEvent_def Let_def slice_last_def)

lemma length_slice_last: "length (slice_last n xs) = min n (length xs)"
  by (simp add: slice_last_def)

lemma slice_last_append_slice_last:
  "slice_last n (slice_last n xs @ ys) = slice_last n (xs @ ys)"
proof -
  have k: "length xs + length ys - (length xs - n + n) + (length xs - n)
             = length xs + length ys - n"
    by arith
  show ?thesis
    by (simp add: slice_last_def k)
qed

lemma events_addEvents:
  "events (progress (addEvents job ins))
     = (if ins = [] then events (progress job)
        else slice_last 100 (events (progress job) @ map mkEvent ins))"
proof (induction ins rule: rev_induct)
  case Nil
  then show ?case by (simp add: addEvents_def)
next
  case (snoc e ins)
  have step: "addEvents job (ins @ [e]) = addEvent (addEvents job ins) (fst e) (fst (snd e)) (snd (snd e))"
    by (simp add: addEvents_def)
  show ?case
  proof (cases "ins = []")
    case True
    then show ?thesis
      by (simp add: step events_addEvent addEvents_def mkEvent_def)
  next
    case False
    then show ?thesis
      using snoc.IH
      by (simp add: step events_addEvent slice_last_append_slice_last mkEvent_def)
  qed
qed

text \<open>
  C5. Whatever the job record holds, after each insertion by \<open>addEvent\<close> (that is, after
  every non-empty sequence of insertions) the timeline has at most 100 entries, and after
  more than 100 insertions it consists of exactly the 100 most recent inserted events,
  in insertion order.
\<close>

theorem addEvent_sliding_window:
  "(ins \<noteq> [] \<longrightarrow> length (events (progress (addEvents job ins))) \<le> 100)
   \<and> (100 < length ins \<longrightarrow>
        events (progress (addEvents job ins)) = map mkEvent (drop (length ins - 100) ins))"
proof -
  have a: "ins \<noteq> [] \<longrightarrow> length (events (progress (addEvents job ins))) \<le> 100"
    by (simp add: events_addEvents length_slice_last)
  have b: "100 < length ins \<longrightarrow>
        events (progress (addEvents job ins)) = map mkEvent (drop (length ins - 100) ins)"
  proof
    assume n: "100 < length ins"
    then have ne: "ins \<noteq> []" by auto
    from n show "events (progress (addEvents job ins)) = map mkEvent (drop (length ins - 100) ins)"
      by (simp add: events_addEvents ne slice_last_def drop_map)
  qed
  from a b show ?thesis by blast
qed

theorem addEvent_sliding_window_witness:
  "replicate 101 (''t'', Info, ''m'') \<noteq> []
   \<and> length (events (progress (addEvents exampleJob (replicate 101 (''t'', Info, ''m''))))) \<le> 100
   \<and> 100 < length (replicate 101 (''t'', Info, ''m''))
   \<and> events (progress (addEvents exampleJob (replicate 101 (''t'', Info, ''m''))))
       = map mkEvent (drop (length (replicate 101 (''t'', Info, ''m'')) - 100)
                        (replicate 101 (''t'', Info, ''m'')))"
  using addEvent_sliding_window [of "replicate 101 (''t'', Info, ''m'')" exampleJob]
  by simp

subsection \<open>Steps of the outside world\<close>

lemma perform_eq: "perform E c w = (respond E (length (calls w)), w\<lparr>calls := calls w @ [c]\<rparr>)"
  by (simp add: perform_def)

lemma swallow_perform: "swallow (perform E c w) = w\<lparr>calls := calls w @ [c]\<rparr>"
  by (simp add: swallow_def perform_def)

lemma swallow_deleteVolume:
  "swallow (deleteVolume E v w) = w\<lparr>calls := calls w @ [FlyDeleteVolume v]\<rparr>"
  by (simp add: deleteVolume_def perform_eq andThen_def swallow_def split: sum.splits)

lemma swallow_destroyMachine:
  "swallow (destroyMachine E m w) = w\<lparr>calls := calls w @ [FlyStopMachine m, FlyDestroyMachine m]\<rparr>"
  by (simp add: destroyMachine_def perform_eq andThen_def swallow_def Let_def split: sum.splits)

lemma cleanupWorker_eq:
  "cleanupWorker E m v w
     = w\<lparr>calls := calls w @ [FlyStopMachine m, FlyDestroyMachine m, FlyDeleteVolume v]\<rparr>"
  by (simp add: cleanupWorker_def swallow_deleteVolume swallow_destroyMachine)

lemma andThen_pair_Inr: "andThen (Inr x, w) f = f x w"
  by (simp add: andThen_def)

lemma calls_saveWorkerJob: "calls (saveWorkerJob job w) = calls w"
  by (simp add: saveWorkerJob_def)

lemma orElse_None: "orElse None b = b"
  by (simp add: orElse_def)

lemma createTemporaryApiKey_ok:
  assumes "respond E (length (calls w)) = Inr token"
    and "respond E (Suc (length (calls w))) = Inr keyId"
  shows "createTemporaryApiKey E uid w
     = (Inr (keyId, token),
        w\<lparr>calls := calls w @ [RandomBytesAsText 32,
             ApiKeyCreate (hashSha256 E token) ''Google Photos Import (temporary)'' uid
               temporaryKeyPermissions]\<rparr>)"
  using assms by (simp add: createTemporaryApiKey_def perform_eq andThen_def)

lemma createWorker_machine_fails:
  assumes "respond E (length (calls w)) = Inr v"
    and "respond E (Suc (length (calls w))) = Inl err"
  shows "createWorker E c w
     = (Inl err,
        w\<lparr>calls := calls w @ [FlyCreateVolume (calculateVolumeSizeGb (cw_fileSizes c)) (orElse (cw_region c) ''ord''),
             FlyCreateMachine \<lparr>mc_name = ''import-'' @ take 8 (cw_jobId c),
                mc_region = orElse (cw_region c) ''ord'',
                mc_env = workerEnv c, mc_volumeId = v, mc_volumePath = ''/data'',
                mc_memoryMb = None, mc_cpus = None\<rparr>,
             FlyDeleteVolume v]\<rparr>)"
  using assms
  by (simp add: createWorker_def createVolume_def createMachine_def swallow_deleteVolume
        perform_eq andThen_def Let_def)

lemma workerFailed_eq:
  "workerFailed E job uid keyId err w
     = (Inl err,
        (saveWorkerJob
           (job\<lparr>status := Failed,
                progress := (progress job)\<lparr>errors :=
                   errors (progress job) @ [''Failed to create worker: '' @ errorToString err]\<rparr>,
                updatedAt := clock E (ticks w)\<rparr>)
           (w\<lparr>ticks := Suc (ticks w)\<rparr>))
         \<lparr>calls := calls w @ [ApiKeyDelete uid keyId]\<rparr>)"
  by (simp add: workerFailed_def newDate_def swallow_perform saveWorkerJob_def Let_def)

lemma example_stored: "getWorkerJob ''job-1'' exampleWorld = Some exampleJob"
  by (simp add: exampleWorld_def saveWorkerJob_def getWorkerJob_def exampleJob_def
        initialJobMetadata_def)

subsection \<open>Rollback on a failed start\<close>

text \<open>
  C1. In every run of \<open>createImportJobWithFlyWorker\<close> that reaches the provisioning
  (the two random values are drawn, the Drive tokens and the OAuth settings exist, the
  temporary key is created, a server URL is configured), in which the volume creation
  returns the id \<open>v\<close> and the machine creation, the next call, throws \<open>err\<close>:
  the error \<open>err\<close> is thrown to the caller; the trace of the run ends with the machine
  creation, then the deletion of volume \<open>v\<close>, then the deletion of the temporary key;
  and the job record stored under the job id has status \<open>failed\<close> and, as its only
  error, the text describing the failure.
\<close>

theorem start_rollback:
  assumes uuid: "respond E (length (calls w)) = Inr jid"
    and secret: "respond E (length (calls w) + 1) = Inr secret"
    and tokens: "driveTokens E uid = Some tokens"
    and oauth: "oauth_enabled (config E)" "oauth_clientId (config E) \<noteq> []"
               "oauth_clientSecret (config E) \<noteq> []"
    and token: "respond E (length (calls w) + 2) = Inr token"
    and key: "respond E (length (calls w) + 3) = Inr keyId"
    and url: "orElse (Some (server_externalDomain (config E))) (orElse (IMMICH_URL E) []) \<noteq> []"
    and volume: "respond E (length (calls w) + 4) = Inr v"
    and machine: "respond E (length (calls w) + 5) = Inl err"
  shows "fst (createImportJobWithFlyWorker E uid fileIds fileSizes w) = Inl err
     \<and> (\<exists>cfg. mc_volumeId cfg = v
           \<and> calls (snd (createImportJobWithFlyWorker E uid fileIds fileSizes w))
             = calls w @ [RandomUUID, RandomBytesAsText 32, RandomBytesAsText 32,
                 ApiKeyCreate (hashSha256 E token) ''Google Photos Import (temporary)'' uid
                   temporaryKeyPermissions,
                 FlyCreateVolume (calculateVolumeSizeGb fileSizes) ''ord'',
                 FlyCreateMachine cfg, FlyDeleteVolume v, ApiKeyDelete uid keyId])
     \<and> (\<exists>job. getWorkerJob jid (snd (createImportJobWithFlyWorker E uid fileIds fileSizes w)) = Some job
           \<and> status job = Failed
           \<and> errors (progress job) = [''Failed to create worker: '' @ errorToString err])"
proof -
  define c where "c = \<lparr>cw_jobId = jid, cw_fileIds = fileIds, cw_fileSizes = fileSizes,
                               cw_accessToken = accessToken tokens,
                               cw_refreshToken = refreshToken tokens,
                               cw_immichApiKey = token,
                               cw_webhookUrl = orElse (Some (server_externalDomain (config E)))
                                 (orElse (IMMICH_URL E) []) @ ''/api/google-photos/worker-webhook'',
                               cw_webhookSecret = secret,
                               cw_immichServerUrl = orElse (Some (server_externalDomain (config E)))
                                 (orElse (IMMICH_URL E) []),
                               cw_googleClientId = oauth_clientId (config E),
                               cw_googleClientSecret = oauth_clientSecret (config E),
                               cw_region = None\<rparr>"
  define cfg where "cfg = \<lparr>mc_name = ''import-'' @ take 8 jid, mc_region = ''ord'',
                mc_env = workerEnv c, mc_volumeId = v, mc_volumePath = ''/data'',
                mc_memoryMb = None, mc_cpus = None\<rparr>"
  define job0 where "job0 = initialJobMetadata jid uid fileIds secret keyId (clock E (ticks w))"
  define w6 where "w6 = (saveWorkerJob job0 (w\<lparr>ticks := Suc (ticks w)\<rparr>))
     \<lparr>calls := calls w @ [RandomUUID, RandomBytesAsText 32, RandomBytesAsText 32,
                 ApiKeyCreate (hashSha256 E token) ''Google Photos Import (temporary)'' uid
                   temporaryKeyPermissions,
                 FlyCreateVolume (calculateVolumeSizeGb fileSizes) ''ord'',
                 FlyCreateMachine cfg, FlyDeleteVolume v]\<rparr>"
  have run: "createImportJobWithFlyWorker E uid fileIds fileSizes w
               = workerFailed E job0 uid keyId err w6"
    using assms
    by (simp add: createImportJobWithFlyWorker_def andThen_pair_Inr perform_eq
          createTemporaryApiKey_ok createWorker_machine_fails newDate_def Let_def
          eval_nat_numeral calls_saveWorkerJob w6_def job0_def cfg_def c_def saveWorkerJob_def
          orElse_None)
  have a: "fst (createImportJobWithFlyWorker E uid fileIds fileSizes w) = Inl err"
    by (simp add: run workerFailed_eq)
  have b: "calls (snd (createImportJobWithFlyWorker E uid fileIds fileSizes w))
             = calls w @ [RandomUUID, RandomBytesAsText 32, RandomBytesAsText 32,
                 ApiKeyCreate (hashSha256 E token) ''Google Photos Import (temporary)'' uid
                   temporaryKeyPermissions,
                 FlyCreateVolume (calculateVolumeSizeGb fileSizes) ''ord'',
                 FlyCreateMachine cfg, FlyDeleteVolume v, ApiKeyDelete uid keyId]"
    by (simp add: run workerFailed_eq w6_def calls_saveWorkerJob)
  have v: "mc_volumeId cfg = v" by (simp add: cfg_def)
  have d: "getWorkerJob jid (snd (createImportJobWithFlyWorker E uid fileIds fileSizes w))
     = Some (job0\<lparr>status := Failed,
                progress := (progress job0)\<lparr>errors :=
                   errors (progress job0) @ [''Failed to create worker: '' @ errorToString err]\<rparr>,
                updatedAt := clock E (ticks w6)\<rparr>)"
    by (simp add: run workerFailed_eq getWorkerJob_def saveWorkerJob_def job0_def initialJobMetadata_def)
  have e: "errors (progress job0) = []" by (simp add: job0_def initialJobMetadata_def)
  from a b v d e show ?thesis by auto
qed

theorem start_rollback_witness:
  "respond failingEnv (length (calls emptyWorld) + 4) = Inr ''vol-1''
   \<and> respond failingEnv (length (calls emptyWorld) + 5)
       = Inl (JsError ''Error'' ''Fly API error: 500 no capacity'')
   \<and> fst (createImportJobWithFlyWorker failingEnv ''user-1'' [''f1''] [7] emptyWorld)
       = Inl (JsError ''Error'' ''Fly API error: 500 no capacity'')
   \<and> (\<exists>job. getWorkerJob ''job-1''
                (snd (createImportJobWithFlyWorker failingEnv ''user-1'' [''f1''] [7] emptyWorld))
              = Some job
            \<and> status job = Failed
            \<and> errors (progress job)
                = [''Failed to create worker: Error: Fly API error: 500 no capacity''])"
  using start_rollback [of failingEnv emptyWorld "''job-1''" "''whsec''" "''user-1''"
      "\<lparr>accessToken = ''at'', refreshToken = None, expiresAt = None\<rparr>" "''tok''" "''key-1''"
      "''vol-1''" "JsError ''Error'' ''Fly API error: 500 no capacity''" "[''f1'']" "[7]"]
  by (simp add: failingEnv_def exampleEnv_def emptyWorld_def orElse_def errorToString_def)

subsection \<open>Cleanup\<close>

lemma fst_cleanupWorkerJob: "fst (cleanupWorkerJob E jid w) = Inr ()"
  by (simp add: cleanupWorkerJob_def Let_def split_def split: option.splits)

lemma cleanupWorkerJob_eq:
  assumes "getWorkerJob jid w = Some job"
  shows "cleanupWorkerJob E jid w
     = (Inr (),
        w\<lparr>systemMetadata := (systemMetadata w)
             (FLY_WORKER_JOB_PREFIX @ jobId job \<mapsto>
                job\<lparr>status := Cleanup, updatedAt := clock E (Suc (ticks w))\<rparr>),
          calls := calls w @ cleanupCalls job,
          ticks := Suc (Suc (ticks w))\<rparr>)"
  using assms
  by (simp add: cleanupWorkerJob_def Let_def newDate_def saveWorkerJob_def swallow_perform
        cleanupWorker_eq cleanupCalls_def)

text \<open>
  C2, as the code has it. For a job record stored under its own id, two calls of
  \<open>cleanupWorkerJob\<close> in sequence both return without an exception, and the stored
  status is \<open>cleanup\<close> after the first and after the second. The second call makes the
  same external calls as the first: when the record has a temporary key id, the key's
  deletion is requested again, whatever the first request answered.
\<close>

theorem cleanup_twice:
  assumes "getWorkerJob jid w = Some job" and "jobId job = jid"
  shows "fst (cleanupWorkerJob E jid w) = Inr ()
     \<and> fst (cleanupWorkerJob E jid (snd (cleanupWorkerJob E jid w))) = Inr ()
     \<and> map_option status (getWorkerJob jid (snd (cleanupWorkerJob E jid w))) = Some Cleanup
     \<and> map_option status
          (getWorkerJob jid (snd (cleanupWorkerJob E jid (snd (cleanupWorkerJob E jid w)))))
         = Some Cleanup
     \<and> calls (snd (cleanupWorkerJob E jid w)) = calls w @ cleanupCalls job
     \<and> calls (snd (cleanupWorkerJob E jid (snd (cleanupWorkerJob E jid w))))
         = calls (snd (cleanupWorkerJob E jid w)) @ cleanupCalls job
     \<and> filter isRevocation (cleanupCalls job)
         = (if tempApiKeyId job \<noteq> [] then [ApiKeyDelete (userId job) (tempApiKeyId job)] else [])"
proof -
  define job1 where "job1 = job\<lparr>status := Cleanup, updatedAt := clock E (Suc (ticks w))\<rparr>"
  have first: "cleanupWorkerJob E jid w
     = (Inr (),
        w\<lparr>systemMetadata := (systemMetadata w)(FLY_WORKER_JOB_PREFIX @ jid \<mapsto> job1),
          calls := calls w @ cleanupCalls job,
          ticks := Suc (Suc (ticks w))\<rparr>)"
    using cleanupWorkerJob_eq [OF assms(1), of E] assms(2) by (simp add: job1_def)
  have get1: "getWorkerJob jid (snd (cleanupWorkerJob E jid w)) = Some job1"
    by (simp add: first getWorkerJob_def)
  have cc: "cleanupCalls job1 = cleanupCalls job"
    by (simp add: job1_def cleanupCalls_def)
  have id1: "jobId job1 = jid"
    by (simp add: job1_def assms(2))
  have second: "cleanupWorkerJob E jid (snd (cleanupWorkerJob E jid w))
     = (Inr (),
        (snd (cleanupWorkerJob E jid w))
         \<lparr>systemMetadata := (systemMetadata (snd (cleanupWorkerJob E jid w)))
             (FLY_WORKER_JOB_PREFIX @ jid \<mapsto>
                job1\<lparr>status := Cleanup,
                     updatedAt := clock E (Suc (ticks (snd (cleanupWorkerJob E jid w))))\<rparr>),
          calls := calls (snd (cleanupWorkerJob E jid w)) @ cleanupCalls job,
          ticks := Suc (Suc (ticks (snd (cleanupWorkerJob E jid w))))\<rparr>)"
    using cleanupWorkerJob_eq [OF get1, of E] by (simp add: id1 cc)
  have s1: "map_option status (getWorkerJob jid (snd (cleanupWorkerJob E jid w))) = Some Cleanup"
    by (simp add: get1 job1_def)
  have s2: "map_option status
          (getWorkerJob jid (snd (cleanupWorkerJob E jid (snd (cleanupWorkerJob E jid w)))))
         = Some Cleanup"
    by (subst second) (simp add: getWorkerJob_def)
  have c1: "calls (snd (cleanupWorkerJob E jid w)) = calls w @ cleanupCalls job"
    by (simp add: first)
  have c2: "calls (snd (cleanupWorkerJob E jid (snd (cleanupWorkerJob E jid w))))
         = calls (snd (cleanupWorkerJob E jid w)) @ cleanupCalls job"
    by (subst second) simp
  have r: "filter isRevocation (cleanupCalls job)
         = (if tempApiKeyId job \<noteq> [] then [ApiKeyDelete (userId job) (tempApiKeyId job)] else [])"
    by (simp add: cleanupCalls_def isRevocation_def)
  from s1 s2 c1 c2 r show ?thesis
    by (simp add: fst_cleanupWorkerJob)
qed

theorem cleanup_twice_witness:
  "getWorkerJob ''job-1'' exampleWorld = Some exampleJob \<and> jobId exampleJob = ''job-1''
   \<and> tempApiKeyId exampleJob \<noteq> []
   \<and> map_option status
        (getWorkerJob ''job-1''
           (snd (cleanupWorkerJob exampleEnv ''job-1''
                   (snd (cleanupWorkerJob exampleEnv ''job-1'' exampleWorld)))))
       = Some Cleanup
   \<and> filter isRevocation (cleanupCalls exampleJob) = [ApiKeyDelete ''user-1'' ''key-1'']"
  using cleanup_twice [of "''job-1''" exampleWorld exampleJob exampleEnv] example_stored
  by (simp add: exampleJob_def initialJobMetadata_def)

text \<open>
  C2 as stated fails: with a key repository that answers every deletion with success, the
  first cleanup of the example job deletes the key, and the second cleanup requests the
  deletion of the same key once more.
\<close>

theorem cleanup_twice_counterexample:
  "respond exampleEnv 0 = Inr ''id''
   \<and> calls (snd (cleanupWorkerJob exampleEnv ''job-1'' exampleWorld))
       = [ApiKeyDelete ''user-1'' ''key-1'', FlyStopMachine ''m-1'', FlyDestroyMachine ''m-1'',
          FlyDeleteVolume ''v-1'']
   \<and> filter isRevocation
        (drop (length (calls (snd (cleanupWorkerJob exampleEnv ''job-1'' exampleWorld))))
           (calls (snd (cleanupWorkerJob exampleEnv ''job-1''
                          (snd (cleanupWorkerJob exampleEnv ''job-1'' exampleWorld))))))
       = [ApiKeyDelete ''user-1'' ''key-1'']"
  by code_simp

subsection \<open>Webhook authentication\<close>

lemma fst_applyWebhook: "fst (applyWebhook E payload job w) = Inr ()"
  by (simp add: applyWebhook_def Let_def split_def)

text \<open>
  C3. For a webhook whose job id has no stored record, the handler throws
  \<open>Job not found\<close> and leaves the state as it was. For a stored job with secret \<open>s\<close>,
  the handler returns without an exception exactly when the presented signature is the
  hex HMAC-SHA256 of \<open>stableStringify(payload)\<close> under \<open>s\<close>; a signature of the same
  length that differs from it is answered with \<open>Invalid signature\<close> and an unchanged
  state; and whenever the handler throws, the state is the one it started from.
\<close>

theorem handleWorkerWebhook_signature:
  "(getWorkerJob (wp_jobId payload) w = None \<longrightarrow>
      handleWorkerWebhook E signature payload w = (Inl (JsError ''Error'' ''Job not found''), w))
   \<and> (\<forall>job. getWorkerJob (wp_jobId payload) w = Some job \<longrightarrow>
        ((fst (handleWorkerWebhook E signature payload w) = Inr ())
           = (signature = hmacSha256Hex E (webhookSecret job) (stableStringify (payloadJson payload))))
        \<and> (signature \<noteq> hmacSha256Hex E (webhookSecret job) (stableStringify (payloadJson payload))
             \<and> length signature
                 = length (hmacSha256Hex E (webhookSecret job) (stableStringify (payloadJson payload)))
             \<longrightarrow> handleWorkerWebhook E signature payload w
                   = (Inl (JsError ''Error'' ''Invalid signature''), w)))
   \<and> (\<forall>e. fst (handleWorkerWebhook E signature payload w) = Inl e \<longrightarrow>
          snd (handleWorkerWebhook E signature payload w) = w)"
proof (cases "getWorkerJob (wp_jobId payload) w")
  case None
  then show ?thesis
    by (simp add: handleWorkerWebhook_def)
next
  case (Some job)
  let ?x = "hmacSha256Hex E (webhookSecret job) (stableStringify (payloadJson payload))"
  show ?thesis
  proof (cases "length signature = length ?x")
    case False
    then have "signature \<noteq> ?x" by auto
    with False Some show ?thesis
      by (simp add: handleWorkerWebhook_def timingSafeEqual_def expectedSignature_def)
  next
    case True
    with Some show ?thesis
      by (simp add: handleWorkerWebhook_def timingSafeEqual_def expectedSignature_def
            fst_applyWebhook)
  qed
qed

lemma example_signature_length:
  "length (replicate 64 (CHR ''f''))
     = length (hmacSha256Hex exampleEnv (webhookSecret exampleJob)
                 (stableStringify (payloadJson examplePayload)))"
  by code_simp

lemma example_signature_differs:
  "replicate 64 (CHR ''f'')
     \<noteq> hmacSha256Hex exampleEnv (webhookSecret exampleJob)
          (stableStringify (payloadJson examplePayload))"
  by code_simp

theorem handleWorkerWebhook_signature_witness:
  "getWorkerJob (wp_jobId examplePayload) exampleWorld = Some exampleJob
   \<and> fst (handleWorkerWebhook exampleEnv
            (hmacSha256Hex exampleEnv (webhookSecret exampleJob)
               (stableStringify (payloadJson examplePayload)))
            examplePayload exampleWorld) = Inr ()
   \<and> handleWorkerWebhook exampleEnv (replicate 64 (CHR ''f'')) examplePayload exampleWorld
       = (Inl (JsError ''Error'' ''Invalid signature''), exampleWorld)
   \<and> getWorkerJob (wp_jobId (examplePayload\<lparr>wp_jobId := ''job-9''\<rparr>)) exampleWorld = None
   \<and> handleWorkerWebhook exampleEnv (replicate 64 (CHR ''f''))
        (examplePayload\<lparr>wp_jobId := ''job-9''\<rparr>) exampleWorld
       = (Inl (JsError ''Error'' ''Job not found''), exampleWorld)"
proof -
  have stored: "getWorkerJob (wp_jobId examplePayload) exampleWorld = Some exampleJob"
    using example_stored by (simp add: examplePayload_def)
  have unknown: "getWorkerJob (wp_jobId (examplePayload\<lparr>wp_jobId := ''job-9''\<rparr>)) exampleWorld = None"
    by (simp add: exampleWorld_def saveWorkerJob_def getWorkerJob_def exampleJob_def
          initialJobMetadata_def emptyWorld_def FLY_WORKER_JOB_PREFIX_def)
  show ?thesis
    using handleWorkerWebhook_signature [of examplePayload exampleWorld exampleEnv
        "hmacSha256Hex exampleEnv (webhookSecret exampleJob)
           (stableStringify (payloadJson examplePayload))"]
      handleWorkerWebhook_signature [of examplePayload exampleWorld exampleEnv
        "replicate 64 (CHR ''f'')"]
      handleWorkerWebhook_signature [of "examplePayload\<lparr>wp_jobId := ''job-9''\<rparr>" exampleWorld
        exampleEnv "replicate 64 (CHR ''f'')"]
      stored unknown example_signature_length example_signature_differs
    by simp
qed

text \<open>
  C10. Let the keyed hash return 64 characters, as a hex SHA-256 digest does. For a
  webhook of a stored job whose signature is not 64 bytes long, the comparison throws the
  \<open>RangeError\<close> of mismatched buffer lengths, which is what the handler throws, and not
  the \<open>Invalid signature\<close> error; the state is unchanged.
\<close>

theorem handleWorkerWebhook_length_mismatch:
  assumes "\<forall>secret msg. length (hmacSha256Hex E secret msg) = 64"
    and "getWorkerJob (wp_jobId payload) w = Some job"
    and "length signature \<noteq> 64"
  shows "handleWorkerWebhook E signature payload w
           = (Inl (JsError ''RangeError'' ''Input buffers must have the same byte length''), w)
         \<and> fst (handleWorkerWebhook E signature payload w)
             \<noteq> Inl (JsError ''Error'' ''Invalid signature'')"
  using assms
  by (simp add: handleWorkerWebhook_def timingSafeEqual_def expectedSignature_def)

theorem handleWorkerWebhook_length_mismatch_witness:
  "(\<forall>secret msg. length (hmacSha256Hex exampleEnv secret msg) = 64)
   \<and> getWorkerJob (wp_jobId examplePayload) exampleWorld = Some exampleJob
   \<and> length ''deadbeef'' \<noteq> 64
   \<and> handleWorkerWebhook exampleEnv ''deadbeef'' examplePayload exampleWorld
       = (Inl (JsError ''RangeError'' ''Input buffers must have the same byte length''), exampleWorld)"
proof -
  have digest: "\<forall>secret msg. length (hmacSha256Hex exampleEnv secret msg) = 64"
    by (auto simp: exampleEnv_def min_def)
  have stored: "getWorkerJob (wp_jobId examplePayload) exampleWorld = Some exampleJob"
    using example_stored by (simp add: examplePayload_def)
  show ?thesis
    using handleWorkerWebhook_length_mismatch [OF digest stored, of "''deadbeef''"] digest stored
    by simp
qed


subsection \<open>Cancelling\<close>

text \<open>
  C8, as the code has it. When the job id has no stored record, \<open>cancelWorkerJob\<close> is
  \<open>cancelJob\<close> on the in-memory map, and when that map does not know the id either the
  call returns with the state unchanged. For a record stored under its own id, whatever
  its status, the call stores the record with status \<open>failed\<close> and the error
  \<open>Cancelled by user\<close> appended, then runs \<open>cleanupWorkerJob\<close>; it returns without
  an exception, the stored status is then \<open>cleanup\<close>, and the external calls of a
  cleanup have been made. A second cancel appends the error a second time.
\<close>

theorem cancel_behaviour:
  "(getWorkerJob jid w = None \<longrightarrow> cancelWorkerJob E jid w = cancelJob E jid w)
   \<and> (getWorkerJob jid w = None \<and> jobs w jid = None \<longrightarrow> cancelWorkerJob E jid w = (Inr (), w))
   \<and> (\<forall>job. getWorkerJob jid w = Some job \<and> jobId job = jid \<longrightarrow>
         cancelWorkerJob E jid w
           = cleanupWorkerJob E jid
               (saveWorkerJob (cancelled job (clock E (ticks w))) (w\<lparr>ticks := Suc (ticks w)\<rparr>))
         \<and> status (cancelled job (clock E (ticks w))) = Failed
         \<and> errors (progress (cancelled job (clock E (ticks w))))
             = errors (progress job) @ [''Cancelled by user'']
         \<and> fst (cancelWorkerJob E jid w) = Inr ()
         \<and> (\<exists>job'. getWorkerJob jid (snd (cancelWorkerJob E jid w)) = Some job'
               \<and> status job' = Cleanup
               \<and> errors (progress job') = errors (progress job) @ [''Cancelled by user''])
         \<and> calls (snd (cancelWorkerJob E jid w)) = calls w @ cleanupCalls job
         \<and> (\<exists>job''. getWorkerJob jid (snd (cancelWorkerJob E jid (snd (cancelWorkerJob E jid w))))
                      = Some job''
               \<and> errors (progress job'')
                   = errors (progress job) @ [''Cancelled by user'', ''Cancelled by user'']))"
proof -
  have a: "getWorkerJob jid w = None \<longrightarrow> cancelWorkerJob E jid w = cancelJob E jid w"
    by (simp add: cancelWorkerJob_def)
  have b: "getWorkerJob jid w = None \<and> jobs w jid = None \<longrightarrow> cancelWorkerJob E jid w = (Inr (), w)"
    by (simp add: cancelWorkerJob_def cancelJob_def)
  have once: "cancelWorkerJob E jid w
           = cleanupWorkerJob E jid
               (saveWorkerJob (cancelled job (clock E (ticks w))) (w\<lparr>ticks := Suc (ticks w)\<rparr>))
         \<and> (\<exists>job'. getWorkerJob jid (snd (cancelWorkerJob E jid w)) = Some job'
               \<and> jobId job' = jid
               \<and> status job' = Cleanup
               \<and> errors (progress job') = errors (progress job) @ [''Cancelled by user''])
         \<and> calls (snd (cancelWorkerJob E jid w)) = calls w @ cleanupCalls job"
    if stored: "getWorkerJob jid w = Some job" and own: "jobId job = jid" for w job
  proof -
    let ?c = "cancelled job (clock E (ticks w))"
    let ?w2 = "saveWorkerJob ?c (w\<lparr>ticks := Suc (ticks w)\<rparr>)"
    have run: "cancelWorkerJob E jid w = cleanupWorkerJob E jid ?w2"
      using stored by (simp add: cancelWorkerJob_def newDate_def Let_def)
    have get2: "getWorkerJob jid ?w2 = Some ?c"
      using own by (simp add: getWorkerJob_def saveWorkerJob_def cancelled_def)
    have cc: "cleanupCalls ?c = cleanupCalls job"
      by (simp add: cleanupCalls_def cancelled_def)
    have id2: "jobId ?c = jid"
      using own by (simp add: cancelled_def)
    note eq = cleanupWorkerJob_eq [OF get2, of E]
    have g: "getWorkerJob jid (snd (cancelWorkerJob E jid w))
               = Some (?c\<lparr>status := Cleanup, updatedAt := clock E (Suc (ticks ?w2))\<rparr>)"
      by (simp add: run eq id2 getWorkerJob_def)
    have c: "calls (snd (cancelWorkerJob E jid w)) = calls w @ cleanupCalls job"
      by (simp add: run eq cc calls_saveWorkerJob)
    from run g c own show ?thesis
      by (simp add: cancelled_def)
  qed
  have c: "cancelWorkerJob E jid w
           = cleanupWorkerJob E jid
               (saveWorkerJob (cancelled job (clock E (ticks w))) (w\<lparr>ticks := Suc (ticks w)\<rparr>))
         \<and> status (cancelled job (clock E (ticks w))) = Failed
         \<and> errors (progress (cancelled job (clock E (ticks w))))
             = errors (progress job) @ [''Cancelled by user'']
         \<and> fst (cancelWorkerJob E jid w) = Inr ()
         \<and> (\<exists>job'. getWorkerJob jid (snd (cancelWorkerJob E jid w)) = Some job'
               \<and> status job' = Cleanup
               \<and> errors (progress job') = errors (progress job) @ [''Cancelled by user''])
         \<and> calls (snd (cancelWorkerJob E jid w)) = calls w @ cleanupCalls job
         \<and> (\<exists>job''. getWorkerJob jid (snd (cancelWorkerJob E jid (snd (cancelWorkerJob E jid w))))
                      = Some job''
               \<and> errors (progress job'')
                   = errors (progress job) @ [''Cancelled by user'', ''Cancelled by user''])"
    if stored: "getWorkerJob jid w = Some job" and own: "jobId job = jid" for job
  proof -
    note first = once [OF stored own]
    then obtain job' where j': "getWorkerJob jid (snd (cancelWorkerJob E jid w)) = Some job'"
      "jobId job' = jid" "status job' = Cleanup"
      "errors (progress job') = errors (progress job) @ [''Cancelled by user'']"
      by blast
    note second = once [OF j'(1) j'(2)]
    then obtain job'' where j'': "getWorkerJob jid (snd (cancelWorkerJob E jid (snd (cancelWorkerJob E jid w)))) = Some job''"
      "errors (progress job'') = errors (progress job') @ [''Cancelled by user'']"
      by blast
    have f: "fst (cancelWorkerJob E jid w) = Inr ()"
      using first by (simp add: fst_cleanupWorkerJob)
    have s: "status (cancelled job (clock E (ticks w))) = Failed
         \<and> errors (progress (cancelled job (clock E (ticks w))))
             = errors (progress job) @ [''Cancelled by user'']"
      by (simp add: cancelled_def)
    from first j' j'' f s show ?thesis by auto
  qed
  from a b c show ?thesis by blast
qed

theorem cancel_behaviour_witness:
  "getWorkerJob ''job-9'' exampleWorld = None \<and> jobs exampleWorld ''job-9'' = None
   \<and> cancelWorkerJob exampleEnv ''job-9'' exampleWorld = (Inr (), exampleWorld)
   \<and> getWorkerJob ''job-1'' exampleWorld = Some exampleJob \<and> jobId exampleJob = ''job-1''
   \<and> fst (cancelWorkerJob exampleEnv ''job-1'' exampleWorld) = Inr ()
   \<and> calls (snd (cancelWorkerJob exampleEnv ''job-1'' exampleWorld))
       = calls exampleWorld @ cleanupCalls exampleJob"
proof -
  have unknown: "getWorkerJob ''job-9'' exampleWorld = None \<and> jobs exampleWorld ''job-9'' = None"
    by (simp add: exampleWorld_def saveWorkerJob_def getWorkerJob_def exampleJob_def
          initialJobMetadata_def emptyWorld_def FLY_WORKER_JOB_PREFIX_def)
  have own: "jobId exampleJob = ''job-1''"
    by (simp add: exampleJob_def initialJobMetadata_def)
  have u: "cancelWorkerJob exampleEnv ''job-9'' exampleWorld = (Inr (), exampleWorld)"
    using cancel_behaviour [of "''job-9''" exampleWorld exampleEnv] unknown by blast
  have k: "fst (cancelWorkerJob exampleEnv ''job-1'' exampleWorld) = Inr ()
     \<and> calls (snd (cancelWorkerJob exampleEnv ''job-1'' exampleWorld))
         = calls exampleWorld @ cleanupCalls exampleJob"
    using cancel_behaviour [of "''job-1''" exampleWorld exampleEnv] own example_stored by blast
  from unknown own example_stored u k show ?thesis by blast
qed

text \<open>
  C8 as stated fails on a job in a terminal status: cancelling the example job stored with
  status \<open>complete\<close> changes its status and its errors and tears the worker down, and
  cancelling it twice leaves two \<open>Cancelled by user\<close> errors where one cancel leaves one.
\<close>

theorem cancel_behaviour_counterexample:
  "map_option (\<lambda>j. (status j, errors (progress j))) (getWorkerJob ''job-1'' terminalWorld)
     = Some (Complete, [])
   \<and> map_option (\<lambda>j. (status j, errors (progress j)))
        (getWorkerJob ''job-1'' (snd (cancelWorkerJob exampleEnv ''job-1'' terminalWorld)))
     = Some (Cleanup, [''Cancelled by user''])
   \<and> calls terminalWorld = []
   \<and> calls (snd (cancelWorkerJob exampleEnv ''job-1'' terminalWorld))
     = [ApiKeyDelete ''user-1'' ''key-1'', FlyStopMachine ''m-1'', FlyDestroyMachine ''m-1'',
        FlyDeleteVolume ''v-1'']
   \<and> map_option (\<lambda>j. (status j, errors (progress j)))
        (getWorkerJob ''job-1''
           (snd (cancelWorkerJob exampleEnv ''job-1''
                   (snd (cancelWorkerJob exampleEnv ''job-1'' terminalWorld)))))
     = Some (Cleanup, [''Cancelled by user'', ''Cancelled by user''])"
  by code_simp

subsection \<open>What an accepted webhook stores\<close>

lemma slice_last_short: "length xs \<le> n \<Longrightarrow> slice_last n xs = xs"
  by (simp add: slice_last_def)

lemma appendWindow_Nil: "appendWindow old [] = old"
  by (simp add: appendWindow_def)

lemma appendWindow_appendWindow:
  "appendWindow (appendWindow old a) b = appendWindow old (a @ b)"
  by (simp add: appendWindow_def slice_last_append_slice_last)

lemma addEvent_withEvents:
  "addEvent job now ty msg
     = withEvents job (appendWindow (events (progress job))
                         [\<lparr>timestamp = now, type = ty, message = msg\<rparr>])"
  by (simp add: addEvent_def withEvents_def appendWindow_def Let_def slice_last_short)

lemma withEvents_withEvents: "withEvents (withEvents job a) b = withEvents job b"
  by (simp add: withEvents_def)

lemma events_withEvents: "events (progress (withEvents job evs)) = evs"
  by (simp add: withEvents_def)

lemma withEvents_same: "withEvents job (events (progress job)) = job"
  by (simp add: withEvents_def)

lemma eventsOnly_start: "eventsOnly job w (job, w)"
proof -
  have "job = withEvents job (appendWindow (events (progress job)) [])"
    by (simp add: appendWindow_Nil withEvents_same)
  moreover have "w = w\<lparr>ticks := ticks w\<rparr>" by simp
  ultimately show ?thesis
    unfolding eventsOnly_def fst_conv snd_conv by blast
qed

lemma eventsOnly_addEventNow:
  assumes "eventsOnly job w st"
  shows "eventsOnly job w (addEventNow E ty msg st)"
proof -
  from assms obtain new n where st: "fst st = withEvents job (appendWindow (events (progress job)) new)"
    "snd st = w\<lparr>ticks := n\<rparr>"
    unfolding eventsOnly_def by blast
  let ?e = "\<lparr>timestamp = clock E n, type = ty, message = msg\<rparr>"
  have f: "fst (addEventNow E ty msg st)
             = withEvents job (appendWindow (events (progress job)) (new @ [?e]))"
    by (simp add: addEventNow_def newDate_def st addEvent_withEvents withEvents_withEvents
          events_withEvents appendWindow_appendWindow)
  have s: "snd (addEventNow E ty msg st) = w\<lparr>ticks := Suc n\<rparr>"
    by (simp add: addEventNow_def newDate_def st)
  from f s show ?thesis
    unfolding eventsOnly_def by blast
qed

lemma eventsOnly_foldl:
  "eventsOnly job w st \<Longrightarrow> eventsOnly job w (foldl (\<lambda>s error. addEventNow E ty error s) st es)"
  by (induction es arbitrary: st) (simp_all add: eventsOnly_addEventNow)

lemma eventsOnly_pushErrors:
  "eventsOnly (mergedJob payload job) w (pushErrors E (wp_errors payload) (mergeFields payload job, w))"
proof (cases "wp_errors payload")
  case None
  then have "mergedJob payload job = mergeFields payload job"
    by (simp add: mergedJob_def payloadErrors_def Let_def)
  with None show ?thesis
    by (simp add: pushErrors_def eventsOnly_start)
next
  case (Some es)
  show ?thesis
  proof (cases "es = []")
    case True
    with Some have "mergedJob payload job = mergeFields payload job"
      by (simp add: mergedJob_def payloadErrors_def Let_def)
    with Some True show ?thesis
      by (simp add: pushErrors_def eventsOnly_start)
  next
    case False
    with Some have "pushErrors E (wp_errors payload) (mergeFields payload job, w)
        = foldl (\<lambda>s error. addEventNow E Error error s) (mergedJob payload job, w) es"
      by (simp add: pushErrors_def mergedJob_def payloadErrors_def Let_def)
    then show ?thesis
      by (simp add: eventsOnly_foldl eventsOnly_start)
  qed
qed

lemma eventsOnly_phaseEvents:
  "eventsOnly job w st \<Longrightarrow> eventsOnly job w (phaseEvents E payload prev st)"
  by (cases "wp_phase payload") (simp_all add: phaseEvents_def eventsOnly_addEventNow)

lemma eventsOnly_downloadEvent:
  "eventsOnly job w st \<Longrightarrow> eventsOnly job w (downloadEvent E payload prev st)"
  by (simp add: downloadEvent_def eventsOnly_addEventNow)

lemma eventsOnly_albumEvent:
  "eventsOnly job w st \<Longrightarrow> eventsOnly job w (albumEvent E payload st)"
  by (simp add: albumEvent_def eventsOnly_addEventNow split: option.splits)

lemma applyWebhook_result:
  "\<exists>new n. applyWebhook E payload job w
     = (Inr (),
        (saveWorkerJob
           ((withEvents (mergedJob payload job) (appendWindow (events (progress job)) new))
              \<lparr>updatedAt := clock E (ticks w)\<rparr>)
           (w\<lparr>ticks := n\<rparr>))
         \<lparr>background := background w
            @ (if wp_phase payload = PhaseComplete \<or> wp_phase payload = PhaseFailed
               then [wp_jobId payload] else [])\<rparr>)"
proof -
  let ?w1 = "w\<lparr>ticks := Suc (ticks w)\<rparr>"
  let ?st4 = "albumEvent E payload
          (downloadEvent E payload (current (progress job))
             (phaseEvents E payload (phase (progress job))
                (pushErrors E (wp_errors payload) (mergeFields payload job, ?w1))))"
  have "eventsOnly (mergedJob payload job) ?w1 ?st4"
    by (intro eventsOnly_albumEvent eventsOnly_downloadEvent eventsOnly_phaseEvents
          eventsOnly_pushErrors)
  then obtain new n where st: "fst ?st4 = withEvents (mergedJob payload job)
        (appendWindow (events (progress (mergedJob payload job))) new)"
    "snd ?st4 = ?w1\<lparr>ticks := n\<rparr>"
    unfolding eventsOnly_def by blast
  have ev: "events (progress (mergedJob payload job)) = events (progress job)"
    by (simp add: mergedJob_def mergeFields_def Let_def split: option.splits)
  have "applyWebhook E payload job w
     = (Inr (),
        (saveWorkerJob
           ((withEvents (mergedJob payload job) (appendWindow (events (progress job)) new))
              \<lparr>updatedAt := clock E (ticks w)\<rparr>)
           (w\<lparr>ticks := n\<rparr>))
         \<lparr>background := background w
            @ (if wp_phase payload = PhaseComplete \<or> wp_phase payload = PhaseFailed
               then [wp_jobId payload] else [])\<rparr>)"
    unfolding applyWebhook_def newDate_def Let_def split_conv
    by (simp add: st ev saveWorkerJob_def)
  then show ?thesis by blast
qed


lemma handle_authenticated:
  assumes "getWorkerJob (wp_jobId payload) w = Some job"
  shows "\<exists>new n. handleWorkerWebhook E (expectedSignature E job payload) payload w
     = (Inr (),
        (saveWorkerJob
           ((withEvents (mergedJob payload job) (appendWindow (events (progress job)) new))
              \<lparr>updatedAt := clock E (ticks w)\<rparr>)
           (w\<lparr>ticks := n\<rparr>))
         \<lparr>background := background w
            @ (if wp_phase payload = PhaseComplete \<or> wp_phase payload = PhaseFailed
               then [wp_jobId payload] else [])\<rparr>)"
  using assms applyWebhook_result [of E payload job w]
  by (simp add: handleWorkerWebhook_def timingSafeEqual_def)

lemma jobId_mergedJob: "jobId (mergedJob payload job) = jobId job"
  by (simp add: mergedJob_def mergeFields_def Let_def split: option.splits)


lemma progress_mergedJob:
  "current (progress (mergedJob payload job)) = pp_current (wp_progress payload)
   \<and> total (progress (mergedJob payload job)) = pp_total (wp_progress payload)
   \<and> phase (progress (mergedJob payload job)) = wp_phase payload
   \<and> currentFile (progress (mergedJob payload job)) = pp_currentFile (wp_progress payload)
   \<and> bytesDownloaded (progress (mergedJob payload job)) = wp_bytesDownloaded payload
   \<and> totalBytes (progress (mergedJob payload job)) = wp_totalBytes payload
   \<and> photosImported (progress (mergedJob payload job))
       = (case wp_photosImported payload of None \<Rightarrow> photosImported (progress job) | Some n \<Rightarrow> n)
   \<and> albumsFound (progress (mergedJob payload job))
       = (case wp_albumsFound payload of None \<Rightarrow> albumsFound (progress job) | Some n \<Rightarrow> n)
   \<and> errors (progress (mergedJob payload job)) = errors (progress job) @ payloadErrors payload
   \<and> status (mergedJob payload job) = statusOfPhase (wp_phase payload)"
  by (simp add: mergedJob_def mergeFields_def Let_def split: option.splits)

lemma handle_stored:
  assumes "getWorkerJob (wp_jobId payload) w = Some job" and "jobId job = wp_jobId payload"
  shows "\<exists>new t. getWorkerJob (wp_jobId payload)
                    (snd (handleWorkerWebhook E (expectedSignature E job payload) payload w))
     = Some ((withEvents (mergedJob payload job) (appendWindow (events (progress job)) new))
               \<lparr>updatedAt := t\<rparr>)"
proof -
  from handle_authenticated [OF assms(1), of E] obtain new n where
    h: "handleWorkerWebhook E (expectedSignature E job payload) payload w
     = (Inr (),
        (saveWorkerJob
           ((withEvents (mergedJob payload job) (appendWindow (events (progress job)) new))
              \<lparr>updatedAt := clock E (ticks w)\<rparr>)
           (w\<lparr>ticks := n\<rparr>))
         \<lparr>background := background w
            @ (if wp_phase payload = PhaseComplete \<or> wp_phase payload = PhaseFailed
               then [wp_jobId payload] else [])\<rparr>)"
    by blast
  have "getWorkerJob (wp_jobId payload)
          (snd (handleWorkerWebhook E (expectedSignature E job payload) payload w))
     = Some ((withEvents (mergedJob payload job) (appendWindow (events (progress job)) new))
               \<lparr>updatedAt := clock E (ticks w)\<rparr>)"
    by (simp add: h getWorkerJob_def saveWorkerJob_def withEvents_def jobId_mergedJob assms(2))
  then show ?thesis by blast
qed






lemma bytes_stored: "getWorkerJob ''job-1'' bytesWorld = Some bytesJob"
  by (simp add: bytesWorld_def saveWorkerJob_def getWorkerJob_def bytesJob_def exampleJob_def
        initialJobMetadata_def)


text \<open>
  C7, as the code has it. A webhook that carries the expected signature of a record stored
  under its own id returns without an exception, and the record stored afterwards has:
  \<open>bytesDownloaded\<close> and \<open>totalBytes\<close> equal to the payload's, hence absent when the
  payload omits them; \<open>photosImported\<close> and \<open>albumsFound\<close> unchanged when the payload
  omits them and equal to the payload's otherwise; \<open>current\<close> and \<open>total\<close> equal to
  the reported values; and as errors the errors stored before followed by the payload's.
\<close>

theorem webhook_field_merge:
  assumes "getWorkerJob (wp_jobId payload) w = Some job" and "jobId job = wp_jobId payload"
  shows "fst (handleWorkerWebhook E (expectedSignature E job payload) payload w) = Inr ()
     \<and> (\<exists>job'. getWorkerJob (wp_jobId payload)
                  (snd (handleWorkerWebhook E (expectedSignature E job payload) payload w))
                = Some job'
          \<and> bytesDownloaded (progress job') = wp_bytesDownloaded payload
          \<and> totalBytes (progress job') = wp_totalBytes payload
          \<and> (wp_photosImported payload = None \<longrightarrow>
                photosImported (progress job') = photosImported (progress job))
          \<and> (wp_albumsFound payload = None \<longrightarrow>
                albumsFound (progress job') = albumsFound (progress job))
          \<and> (\<forall>n. wp_photosImported payload = Some n \<longrightarrow> photosImported (progress job') = n)
          \<and> (\<forall>n. wp_albumsFound payload = Some n \<longrightarrow> albumsFound (progress job') = n)
          \<and> current (progress job') = pp_current (wp_progress payload)
          \<and> total (progress job') = pp_total (wp_progress payload)
          \<and> errors (progress job') = errors (progress job) @ payloadErrors payload)"
proof -
  from handle_stored [OF assms, of E] obtain new t where
    g: "getWorkerJob (wp_jobId payload)
          (snd (handleWorkerWebhook E (expectedSignature E job payload) payload w))
     = Some ((withEvents (mergedJob payload job) (appendWindow (events (progress job)) new))
               \<lparr>updatedAt := t\<rparr>)"
    by blast
  have f: "fst (handleWorkerWebhook E (expectedSignature E job payload) payload w) = Inr ()"
    using handle_authenticated [OF assms(1), of E] by auto
  show ?thesis
    using progress_mergedJob [of payload job]
    by (simp add: f g withEvents_def)
qed

theorem webhook_field_merge_witness:
  "getWorkerJob (wp_jobId quietPayload) bytesWorld = Some bytesJob
   \<and> jobId bytesJob = wp_jobId quietPayload
   \<and> wp_photosImported quietPayload = None \<and> wp_albumsFound quietPayload = None
   \<and> (\<exists>job'. getWorkerJob (wp_jobId quietPayload)
                 (snd (handleWorkerWebhook exampleEnv
                         (expectedSignature exampleEnv bytesJob quietPayload) quietPayload bytesWorld))
               = Some job'
          \<and> bytesDownloaded (progress job') = None
          \<and> photosImported (progress job') = photosImported (progress bytesJob)
          \<and> albumsFound (progress job') = albumsFound (progress bytesJob)
          \<and> current (progress job') = 5)
   \<and> getWorkerJob (wp_jobId countsPayload) bytesWorld = Some bytesJob
   \<and> jobId bytesJob = wp_jobId countsPayload
   \<and> wp_photosImported countsPayload = Some 7 \<and> wp_albumsFound countsPayload = Some 2
   \<and> (\<exists>job'. getWorkerJob (wp_jobId countsPayload)
                 (snd (handleWorkerWebhook exampleEnv
                         (expectedSignature exampleEnv bytesJob countsPayload) countsPayload bytesWorld))
               = Some job'
          \<and> photosImported (progress job') = 7 \<and> albumsFound (progress job') = 2)"
proof -
  have q: "wp_jobId quietPayload = ''job-1''" "wp_photosImported quietPayload = None"
    "wp_albumsFound quietPayload = None" "wp_bytesDownloaded quietPayload = None"
    "pp_current (wp_progress quietPayload) = 5"
    by (simp_all add: quietPayload_def examplePayload_def)
  have c: "wp_jobId countsPayload = ''job-1''" "wp_photosImported countsPayload = Some 7"
    "wp_albumsFound countsPayload = Some 2"
    by (simp_all add: countsPayload_def examplePayload_def)
  have own: "jobId bytesJob = ''job-1''"
    by (simp add: bytesJob_def exampleJob_def initialJobMetadata_def)
  have a: "\<exists>job'. getWorkerJob (wp_jobId quietPayload)
                 (snd (handleWorkerWebhook exampleEnv
                         (expectedSignature exampleEnv bytesJob quietPayload) quietPayload bytesWorld))
               = Some job'
          \<and> bytesDownloaded (progress job') = None
          \<and> photosImported (progress job') = photosImported (progress bytesJob)
          \<and> albumsFound (progress job') = albumsFound (progress bytesJob)
          \<and> current (progress job') = 5"
    using webhook_field_merge [of quietPayload bytesWorld bytesJob exampleEnv] bytes_stored own q
    by auto
  have b: "\<exists>job'. getWorkerJob (wp_jobId countsPayload)
                 (snd (handleWorkerWebhook exampleEnv
                         (expectedSignature exampleEnv bytesJob countsPayload) countsPayload bytesWorld))
               = Some job'
          \<and> photosImported (progress job') = 7 \<and> albumsFound (progress job') = 2"
    using webhook_field_merge [of countsPayload bytesWorld bytesJob exampleEnv] bytes_stored own c
    by auto
  from a b bytes_stored own q c show ?thesis by simp
qed

text \<open>
  C7 as stated fails for the byte counters: a job that has \<open>bytesDownloaded = 1024\<close> and
  \<open>totalBytes = 4096\<close> stored loses both to a webhook whose payload omits them.
\<close>

theorem webhook_field_merge_counterexample:
  "map_option (\<lambda>j. (bytesDownloaded (progress j), totalBytes (progress j)))
     (getWorkerJob ''job-1'' bytesWorld) = Some (Some 1024, Some 4096)
   \<and> wp_bytesDownloaded quietPayload = None \<and> wp_totalBytes quietPayload = None
   \<and> map_option (\<lambda>j. (bytesDownloaded (progress j), totalBytes (progress j)))
       (getWorkerJob ''job-1''
          (snd (handleWorkerWebhook exampleEnv (expectedSignature exampleEnv bytesJob quietPayload)
                  quietPayload bytesWorld)))
       = Some (None, None)"
  by code_simp




subsection \<open>Canonical JSON\<close>

lemma insert_index_relabel:
  "insert_index i k (f v) (map (\<lambda>p. (fst p, f (snd p))) obj)
     = map (\<lambda>p. (fst p, f (snd p))) (insert_index i k v obj)"
  by (induction obj) (simp_all split: option.splits)

lemma obj_set_relabel:
  "obj_set (map (\<lambda>p. (fst p, f (snd p))) obj) k (f v)
     = map (\<lambda>p. (fst p, f (snd p))) (obj_set obj k v)"
  by (simp add: obj_set_def insert_index_relabel comp_def split: option.splits)

lemma map_of_relabel:
  "map_of (map (\<lambda>p. (fst p, f (snd p))) kvs) k = map_option f (map_of kvs k)"
  by (induction kvs) simp_all

lemma foldl_obj_set_relabel:
  "foldl (\<lambda>sorted k. case map_of (map (\<lambda>p. (fst p, f (snd p))) value) k of
                          Some v \<Rightarrow> obj_set sorted k v | None \<Rightarrow> sorted)
     (map (\<lambda>p. (fst p, f (snd p))) acc) ks
   = map (\<lambda>p. (fst p, f (snd p)))
       (foldl (\<lambda>sorted k. case map_of value k of Some v \<Rightarrow> obj_set sorted k v | None \<Rightarrow> sorted)
          acc ks)"
proof (induction ks arbitrary: acc)
  case Nil
  then show ?case by simp
next
  case (Cons k ks)
  show ?case
  proof (cases "map_of value k")
    case None
    then show ?thesis
      using Cons.IH [of acc] by (simp add: map_of_relabel)
  next
    case (Some v)
    then show ?thesis
      using Cons.IH [of "obj_set acc k v"] by (simp add: map_of_relabel obj_set_relabel)
  qed
qed

lemma sortedCopy_relabel:
  "sortedCopy (map (\<lambda>p. (fst p, f (snd p))) value)
     = map (\<lambda>p. (fst p, f (snd p))) (sortedCopy value)"
  using foldl_obj_set_relabel [of f "value" "[]" "sort (map fst value)"]
  by (simp add: sortedCopy_def comp_def)

lemma sortedCopy_cong:
  assumes "sort (map fst a) = sort (map fst b)" and "\<And>k. map_of a k = map_of b k"
  shows "sortedCopy a = sortedCopy b"
proof -
  have "map_of a = map_of b" using assms(2) by (rule ext)
  with assms(1) show ?thesis by (simp add: sortedCopy_def)
qed

lemma sort_keys_eq:
  assumes "distinct xs" and "distinct ys" and "set xs = set ys"
  shows "sort xs = sort (ys :: string list)"
  by (rule sorted_distinct_set_unique) (simp_all add: assms)

lemma members_eq:
  assumes d: "distinct (map fst kvs)" "distinct (map fst kvs')"
    and s: "set (map fst kvs) = set (map fst kvs')"
    and v: "\<And>k v v'. map_of kvs k = Some v \<Longrightarrow> map_of kvs' k = Some v' \<Longrightarrow> f v = f v'"
  shows "map (\<lambda>p. (fst p, f (snd p))) (sortedCopy kvs)
       = map (\<lambda>p. (fst p, f (snd p))) (sortedCopy kvs')"
proof -
  have keys: "sort (map fst (map (\<lambda>p. (fst p, f (snd p))) kvs))
            = sort (map fst (map (\<lambda>p. (fst p, f (snd p))) kvs'))"
    using sort_keys_eq [OF d s] by (simp add: comp_def)
  have look: "map_of (map (\<lambda>p. (fst p, f (snd p))) kvs) k
            = map_of (map (\<lambda>p. (fst p, f (snd p))) kvs') k" for k
  proof (cases "k \<in> set (map fst kvs)")
    case True
    then obtain x where x: "map_of kvs k = Some x"
      by (metis map_of_eq_None_iff not_Some_eq set_map)
    from True s have "k \<in> set (map fst kvs')" by simp
    then obtain y where y: "map_of kvs' k = Some y"
      by (metis map_of_eq_None_iff not_Some_eq set_map)
    from v [OF x y] x y show ?thesis
      by (simp add: map_of_relabel)
  next
    case False
    then have a: "map_of kvs k = None"
      by (simp add: map_of_eq_None_iff)
    from False s have "k \<notin> set (map fst kvs')" by simp
    then have b: "map_of kvs' k = None"
      by (simp add: map_of_eq_None_iff)
    from a b show ?thesis
      by (simp add: map_of_relabel)
  qed
  have "sortedCopy (map (\<lambda>p. (fst p, f (snd p))) kvs)
      = sortedCopy (map (\<lambda>p. (fst p, f (snd p))) kvs')"
    using keys look by (rule sortedCopy_cong)
  then show ?thesis
    by (simp add: sortedCopy_relabel)
qed


text \<open>
  Two JSON values that are equal up to the order of the keys of their objects, at any
  depth, are written by \<open>stableStringify\<close> as the same string; the elements of an array
  are written in their order, by the equation of \<open>stableStringify\<close> for arrays.
\<close>

lemma stableStringify_key_order:
  "sameUpToKeyOrder a b \<Longrightarrow> stableStringify a = stableStringify b"
proof (induction rule: sameUpToKeyOrder.induct)
  case (same_arr xs ys)
  then have "map stableStringify xs = map stableStringify ys"
    by (induction xs ys rule: list_all2_induct) simp_all
  then show ?case by simp
next
  case (same_obj kvs kvs')
  have "map (\<lambda>p. (fst p, stableStringify (snd p))) (sortedCopy kvs)
      = map (\<lambda>p. (fst p, stableStringify (snd p))) (sortedCopy kvs')"
    using same_obj.hyps(1-3)
  proof (rule members_eq)
    fix k v v'
    assume "map_of kvs k = Some v" and "map_of kvs' k = Some v'"
    with same_obj.IH show "stableStringify v = stableStringify v'" by blast
  qed
  then have "map (\<lambda>q. QuoteJSONString (fst q) @ '':'' @ snd q)
               (map (\<lambda>p. (fst p, stableStringify (snd p))) (sortedCopy kvs))
           = map (\<lambda>q. QuoteJSONString (fst q) @ '':'' @ snd q)
               (map (\<lambda>p. (fst p, stableStringify (snd p))) (sortedCopy kvs'))"
    by simp
  then show ?case
    by (simp add: comp_def)
qed simp_all

lemma obj_set_plain_key:
  assumes "k \<notin> set (map fst obj)" and "array_index k = None" and "k \<noteq> ''__proto__''"
  shows "obj_set obj k v = obj @ [(k, v)]"
  using assms by (simp add: obj_set_def)

lemma foldl_obj_set_plain_keys:
  assumes "distinct ks" and "set ks \<inter> set (map fst acc) = {}"
    and "\<forall>k\<in>set ks. array_index k = None \<and> k \<noteq> ''__proto__'' \<and> map_of value k \<noteq> None"
  shows "map fst (foldl (\<lambda>sorted k. case map_of value k of Some v \<Rightarrow> obj_set sorted k v
                                      | None \<Rightarrow> sorted) acc ks)
       = map fst acc @ ks"
  using assms
proof (induction ks arbitrary: acc)
  case Nil
  then show ?case by simp
next
  case (Cons k ks)
  from Cons.prems(3) obtain v where v: "map_of value k = Some v" by auto
  have fresh: "k \<notin> set (map fst acc)"
    using Cons.prems(2) by auto
  have plain: "array_index k = None" "k \<noteq> ''__proto__''"
    using Cons.prems(3) by auto
  have step: "obj_set acc k v = acc @ [(k, v)]"
    using fresh plain by (rule obj_set_plain_key)
  have "map fst (foldl (\<lambda>sorted k. case map_of value k of Some v \<Rightarrow> obj_set sorted k v
                                      | None \<Rightarrow> sorted) (acc @ [(k, v)]) ks)
       = map fst (acc @ [(k, v)]) @ ks"
  proof (rule Cons.IH)
    show "distinct ks" using Cons.prems(1) by simp
    show "set ks \<inter> set (map fst (acc @ [(k, v)])) = {}"
      using Cons.prems(1,2) by auto
    show "\<forall>k\<in>set ks. array_index k = None \<and> k \<noteq> ''__proto__'' \<and> map_of value k \<noteq> None"
      using Cons.prems(3) by simp
  qed
  then show ?case
    by (simp add: v step)
qed


text \<open>
  An object none of whose keys is an array index or \<open>__proto__\<close> has its members written
  in the sorted order of its keys. Every object of a webhook payload is of this kind.
\<close>

lemma serializedKeys_sorted:
  assumes "distinct (map fst value)"
    and "\<forall>k\<in>set (map fst value). array_index k = None \<and> k \<noteq> ''__proto__''"
  shows "serializedKeys value = sort (map fst value)"
proof -
  have d: "distinct (sort (map fst value))"
    using assms(1) by simp
  have e: "set (sort (map fst value)) \<inter> set (map fst ([] :: (string \<times> 'a) list)) = {}"
    by simp
  have k: "\<forall>k\<in>set (sort (map fst value)).
            array_index k = None \<and> k \<noteq> ''__proto__'' \<and> map_of value k \<noteq> None"
    using assms(2) by (auto simp: map_of_eq_None_iff)
  from foldl_obj_set_plain_keys [OF d e k] show ?thesis
    by (simp add: serializedKeys_def sortedCopy_def)
qed



end
